theory Spec2Isabelle
  imports Main "HOL-Library.Word" "HOL-Library.Char_ord" "HOL-Library.List_Lexorder"
begin

section \<open>The media call subsystem of SIPE: data model\<close>

text \<open>
  A shallow embedding of \<^verbatim>\<open>sipe-media.c\<close> (signalling, SDP conversion, candidate
  normalisation, media relay credentials) and of \<^verbatim>\<open>sipe-ft-lync.c\<close> (the Lync
  file transfer overlay). C structs are records, enums are datatypes, \<^verbatim>\<open>guint\<close> and
  \<^verbatim>\<open>int\<close> are 32-bit words, \<^verbatim>\<open>gsize\<close> is a 64-bit word, a \<^verbatim>\<open>gchar *\<close> that may be
  \<^verbatim>\<open>NULL\<close> is a \<open>string option\<close>, a \<^verbatim>\<open>GList\<close>/\<^verbatim>\<open>GSList\<close> is a list, and a
  \<^verbatim>\<open>GHashTable\<close> keyed by strings is a map. Calls into the backend and into the SIP
  transport are recorded as events, in the order the code makes them.
\<close>

type_synonym guint = "32 word"
type_synonym gint = "32 word"
type_synonym gsize = "64 word"

datatype SipeMediaType = SIPE_MEDIA_AUDIO | SIPE_MEDIA_VIDEO | SIPE_MEDIA_APPLICATION

datatype SipeIceVersion = SIPE_ICE_DRAFT_6 | SIPE_ICE_RFC_5245

datatype SipeCandidateType =
    SIPE_CANDIDATE_TYPE_ANY
  | SIPE_CANDIDATE_TYPE_HOST
  | SIPE_CANDIDATE_TYPE_RELAY
  | SIPE_CANDIDATE_TYPE_SRFLX
  | SIPE_CANDIDATE_TYPE_PRFLX

datatype SipeComponentType = SIPE_COMPONENT_NONE | SIPE_COMPONENT_RTP | SIPE_COMPONENT_RTCP

datatype SipeNetworkProtocol =
    SIPE_NETWORK_PROTOCOL_UDP
  | SIPE_NETWORK_PROTOCOL_TCP_ACTIVE
  | SIPE_NETWORK_PROTOCOL_TCP_PASSIVE

datatype SipeEncryptionPolicy =
    SIPE_ENCRYPTION_POLICY_REJECTED
  | SIPE_ENCRYPTION_POLICY_OPTIONAL
  | SIPE_ENCRYPTION_POLICY_REQUIRED
  | SIPE_ENCRYPTION_POLICY_OBEY_SERVER

text \<open>\<^verbatim>\<open>struct sipnameval\<close>: a name with a value that may be \<^verbatim>\<open>NULL\<close>.\<close>

type_synonym sipnameval = "string \<times> string option"

text \<open>
  Modelled from the spec: \<^verbatim>\<open>sipe_utils_nameval_add\<close> and \<^verbatim>\<open>sipe_utils_nameval_find\<close>
  of \<^verbatim>\<open>sipe-utils.c\<close>, which is not among the sources. Attribute lists are name/value
  pairs whose order is preserved: adding appends, finding returns the value of the first
  entry of that name (\<^verbatim>\<open>NULL\<close> when there is none).
\<close>

definition sipe_utils_nameval_add ::
  "sipnameval list \<Rightarrow> string \<Rightarrow> string option \<Rightarrow> sipnameval list" where
  "sipe_utils_nameval_add l n v = l @ [(n, v)]"

definition sipe_utils_nameval_find :: "sipnameval list \<Rightarrow> string \<Rightarrow> string option" where
  "sipe_utils_nameval_find l n =
     (case find (\<lambda>e. fst e = n) l of None \<Rightarrow> None | Some e \<Rightarrow> snd e)"


subsection \<open>Media relays and the process-wide state\<close>

record sipe_media_relay =
  hostname :: "string option"
  udp_port :: guint
  tcp_port :: guint
  dns_query :: bool

text \<open>
  \<^verbatim>\<open>struct sipe_core_private\<close>, the fields the media code reads and writes. The
  registry \<^verbatim>\<open>media_calls\<close> is added below, once the call record exists.
\<close>

record media_settings =
  min_media_port :: guint
  max_media_port :: guint
  min_audio_port :: guint
  max_audio_port :: guint
  min_video_port :: guint
  max_video_port :: guint
  min_filetransfer_port :: guint
  max_filetransfer_port :: guint
  min_appsharing_port :: guint
  max_appsharing_port :: guint
  server_av_encryption_policy :: SipeEncryptionPolicy
  backend_encryption_policy :: SipeEncryptionPolicy
  media_relay_username :: "string option"
  media_relay_password :: "string option"
  media_relays :: "sipe_media_relay list"

subsection \<open>Codecs, candidates, SDP media sections\<close>

record sdpcodec =
  codec_id :: gint
  codec_name :: string
  clock_rate :: gint
  codec_type :: SipeMediaType
  parameters :: "sipnameval list"

text \<open>What the getters of an opaque \<^verbatim>\<open>struct sipe_backend_codec\<close> return.\<close>

record sipe_backend_codec =
  bcodec_id :: gint
  bcodec_name :: string
  bcodec_clock_rate :: gint
  bcodec_type :: SipeMediaType
  bcodec_optional_parameters :: "sipnameval list"

text \<open>What the getters of an opaque \<^verbatim>\<open>struct sipe_backend_candidate\<close> return.\<close>

record sipe_backend_candidate =
  bc_foundation :: string
  bc_component :: SipeComponentType
  bc_type :: SipeCandidateType
  bc_protocol :: SipeNetworkProtocol
  bc_ip :: "string option"
  bc_port :: guint
  bc_base_ip :: "string option"
  bc_base_port :: guint
  bc_priority :: guint
  bc_username :: string
  bc_password :: string

record sdpcandidate =
  foundation :: string
  component :: SipeComponentType
  cand_type :: SipeCandidateType
  protocol :: SipeNetworkProtocol
  ip :: string
  port :: guint
  base_ip :: "string option"
  base_port :: guint
  priority :: guint
  username :: string
  password :: string

type_synonym srtp_key = "8 word list"

record sdpmedia =
  media_name :: string
  media_ip :: "string option"
  media_port :: guint
  media_attributes :: "sipnameval list"
  media_candidates :: "sdpcandidate list"
  media_codecs :: "sdpcodec list"
  media_remote_candidates :: "sdpcandidate list"
  media_encryption_active :: bool
  media_encryption_key :: "srtp_key option"
  media_encryption_key_id :: gint

record sdpmsg =
  sdp_ip :: "string option"
  sdp_media :: "sdpmedia list"
  sdp_ice_version :: SipeIceVersion

subsection \<open>Streams, dialogs, calls\<close>

text \<open>
  The part of the backend's stream object that the core reads back: the codecs and
  candidates the backend reports, and the held and initialised flags.
\<close>

record sipe_backend_media_stream =
  local_codecs :: "sipe_backend_codec list"
  active_local_candidates :: "sipe_backend_candidate list"
  local_candidates :: "sipe_backend_candidate list"
  active_remote_candidates :: "sipe_backend_candidate list"
  held :: bool
  initialized :: bool

record sipe_media_stream_private =
  stream_id :: string
  backend_private :: sipe_backend_media_stream
  encryption_key :: "srtp_key option"
  encryption_key_id :: gint
  remote_candidates_and_codecs_set :: bool
  extra_sdp :: "sipnameval list"

record transaction =
  trans_cseq :: gint

record sip_dialog =
  dialog_callid :: string
  dialog_with :: string
  cseq :: gint
  outgoing_invite :: "transaction option"

record sip_session =
  session_with :: string
  dialogs :: "sip_dialog list"

text \<open>
  A SIP message as the transport hands it over: response code and string, headers, body,
  and what \<^verbatim>\<open>sipmsg_parse_warning\<close> and \<^verbatim>\<open>sipmsg_get_ms_diagnostics_reason\<close> make of
  it.
\<close>

record sipmsg =
  msg_response :: int
  msg_responsestr :: string
  msg_headers :: "(string \<times> string) list"
  msg_body :: string
  msg_parsed_warning :: int
  msg_ms_diagnostics_reason :: "string option"

text \<open>
  \<^verbatim>\<open>struct sipe_media_call_private\<close>: beside the streams and the failed media sections,
  the INVITE that is being answered, the remote message that waits for the new streams,
  and the extra section of the next INVITE with its content type.
\<close>

record sipe_media_call_private =
  call_with :: string
  session :: "sip_session option"
  streams :: "sipe_media_stream_private list"
  ice_version :: SipeIceVersion
  encryption_compatible :: bool
  failed_media :: "sdpmedia list"
  invitation :: "sipmsg option"
  smsg :: "sdpmsg option"
  extra_invite_section :: "string option"
  invite_content_type :: "string option"

text \<open>
  The registry \<^verbatim>\<open>media_calls\<close>, keyed by Call-ID, with the other fields of
  \<^verbatim>\<open>struct sipe_core_private\<close> that the code below reads: the contact, the URI of the
  test call bot, and the flag \<^verbatim>\<open>OCS2007\<close>.
\<close>

record sipe_core_private = media_settings +
  media_calls :: "string \<rightharpoonup> sipe_media_call_private"
  contact :: string
  test_call_bot_uri :: "string option"
  ocs2007 :: bool

subsection \<open>Messages, file transfers, and requests to the backend and the transport\<close>

text \<open>
  The bodies of \<^verbatim>\<open>application/ms-filetransfer+xml\<close> messages the file transfer code
  sends, by their format string and arguments.
\<close>

datatype ft_message =
    SUCCESS_RESPONSE guint
  | DOWNLOAD_FILE_REQUEST guint "string option" "string option"
  | FILETRANSFER_PROGRESS gint guint gint
  | DOWNLOAD_SUCCESS_RESPONSE guint
  | DOWNLOAD_PENDING_RESPONSE guint

record sipe_file_transfer_lync =
  ft_deallocate :: bool
  ft_file_name :: "string option"
  ft_id :: "string option"
  file_size :: gsize
  request_id :: guint
  ft_call_private :: "string option"
  was_cancelled :: bool
  write_source_id :: gint


record add_stream_request =
  req_id :: string
  req_participant :: string
  req_type :: SipeMediaType
  req_ice_version :: SipeIceVersion
  req_initiator :: bool
  req_relays :: "sipe_media_relay list"
  req_relay_username :: "string option"
  req_relay_password :: "string option"
  req_min_port :: guint
  req_max_port :: guint

text \<open>The calls the core makes into the backend and the transport, recorded in order.\<close>

datatype event =
    BackendMediaAddStream add_stream_request
  | BackendMediaStreamEnd string
  | BackendStreamHold string
  | BackendStreamUnhold string
  | BackendSetEncryptionKeys string srtp_key srtp_key
  | BackendSetRemoteCodecs string "sipe_backend_codec list"
  | BackendAddRemoteCandidates string "sipe_backend_candidate list"
  | BackendMediaHangup string bool
  | BackendNotifyError string string
  | BackendDnsQueryCancel "string option"
  | BackendDnsQueryA "string option" guint
  | BackendMediaNew string string bool bool
  | BackendMediaSetCname string string
  | BackendMediaStreamFree string
  | BackendMediaFree string
  | SipeSessionRemove string
  | PhoneStatePublish
  | SipTransportAck sip_dialog
  | SipTransportResponse int string "string option"
  | SipTransportInfo ft_message
  | GSourceRemove gint

section \<open>Adding a stream: the port range asked of the backend\<close>

text \<open>
  The \<^verbatim>\<open>switch (type)\<close> of \<^verbatim>\<open>sipe_media_stream_add\<close>, with the general range as the
  initial value of \<^verbatim>\<open>min_port\<close> and \<^verbatim>\<open>max_port\<close>. The video case reads
  \<^verbatim>\<open>max_audio_port\<close>, as the source does.
\<close>

definition stream_port_range ::
  "'a media_settings_scheme \<Rightarrow> SipeMediaType \<Rightarrow> string \<Rightarrow> guint \<times> guint" where
  "stream_port_range sipe_private type sid =
     (case type of
        SIPE_MEDIA_AUDIO \<Rightarrow> (min_audio_port sipe_private, max_audio_port sipe_private)
      | SIPE_MEDIA_VIDEO \<Rightarrow> (min_video_port sipe_private, max_audio_port sipe_private)
      | SIPE_MEDIA_APPLICATION \<Rightarrow>
          (if sid = ''data''
           then (min_filetransfer_port sipe_private, max_filetransfer_port sipe_private)
           else if sid = ''applicationsharing''
           then (min_appsharing_port sipe_private, max_appsharing_port sipe_private)
           else (min_media_port sipe_private, max_media_port sipe_private)))"

text \<open>
  \<^verbatim>\<open>sipe_media_stream_add\<close>. The backend's answer to \<^verbatim>\<open>sipe_backend_media_add_stream\<close>
  (\<^verbatim>\<open>NULL\<close> on failure) and the SRTP key drawn from \<^verbatim>\<open>rand()\<close> (absent when built
  without \<^verbatim>\<open>HAVE_SRTP\<close>) are parameters. The result is the new stream, if any, the call
  with the stream appended, and the request made to the backend.
\<close>

definition sipe_media_stream_add ::
  "(add_stream_request \<Rightarrow> sipe_backend_media_stream option) \<Rightarrow> srtp_key option \<Rightarrow>
   'a media_settings_scheme \<Rightarrow> sipe_media_call_private \<Rightarrow> string \<Rightarrow> SipeMediaType \<Rightarrow>
   SipeIceVersion \<Rightarrow> bool \<Rightarrow>
   sipe_media_stream_private option \<times> sipe_media_call_private \<times> event list" where
  "sipe_media_stream_add backend_add_stream new_key sipe_private call sid type ice initiator =
     (let (min_port, max_port) = stream_port_range sipe_private type sid;
          request = \<lparr> req_id = sid, req_participant = call_with call, req_type = type,
                      req_ice_version = ice, req_initiator = initiator,
                      req_relays = media_relays sipe_private,
                      req_relay_username = media_relay_username sipe_private,
                      req_relay_password = media_relay_password sipe_private,
                      req_min_port = min_port, req_max_port = max_port \<rparr>
      in case backend_add_stream request of
           None \<Rightarrow> (None, call, [BackendMediaAddStream request])
         | Some backend_stream \<Rightarrow>
             (let stream_private =
                    \<lparr> stream_id = sid, backend_private = backend_stream,
                      encryption_key = new_key, encryption_key_id = (if new_key = None then 0 else 1),
                      remote_candidates_and_codecs_set = False, extra_sdp = [] \<rparr>
              in (Some stream_private,
                  call\<lparr>streams := streams call @ [stream_private]\<rparr>,
                  [BackendMediaAddStream request])))"

text \<open>Example settings with six disjoint port ranges, and a call without streams.\<close>

definition example_settings :: media_settings where
  "example_settings =
     \<lparr> min_media_port = 1000, max_media_port = 1999,
       min_audio_port = 2000, max_audio_port = 2999,
       min_video_port = 3000, max_video_port = 3999,
       min_filetransfer_port = 4000, max_filetransfer_port = 4999,
       min_appsharing_port = 5000, max_appsharing_port = 5999,
       server_av_encryption_policy = SIPE_ENCRYPTION_POLICY_OPTIONAL,
       backend_encryption_policy = SIPE_ENCRYPTION_POLICY_OBEY_SERVER,
       media_relay_username = None, media_relay_password = None, media_relays = [] \<rparr>"

definition example_backend_stream :: sipe_backend_media_stream where
  "example_backend_stream =
     \<lparr> local_codecs = [], active_local_candidates = [], local_candidates = [],
       active_remote_candidates = [], held = False, initialized = True \<rparr>"

definition empty_call :: sipe_media_call_private where
  "empty_call =
     \<lparr> call_with = ''sip:bob@example.com'', session = None, streams = [],
       ice_version = SIPE_ICE_RFC_5245, encryption_compatible = True, failed_media = [],
       invitation = None, smsg = None, extra_invite_section = None,
       invite_content_type = None \<rparr>"


section \<open>From backend codecs and candidates to an SDP media section\<close>

text \<open>
  Modelled from the spec: \<^verbatim>\<open>sipe_strcompare\<close> of the utilities, which are not among
  the sources. Candidates are sorted by (foundation, username, component); strings
  compare bytewise, as \<^verbatim>\<open>strcmp\<close> does.
\<close>

definition sipe_strcompare :: "string \<Rightarrow> string \<Rightarrow> int" where
  "sipe_strcompare a b = (if a < b then - 1 else if a = b then 0 else 1)"

text \<open>The values of \<^verbatim>\<open>SipeComponentType\<close>, subtracted by \<^verbatim>\<open>candidate_sort_cb\<close>.\<close>

fun component_value :: "SipeComponentType \<Rightarrow> int" where
  "component_value SIPE_COMPONENT_NONE = 0"
| "component_value SIPE_COMPONENT_RTP = 1"
| "component_value SIPE_COMPONENT_RTCP = 2"

definition candidate_sort_cb :: "sdpcandidate \<Rightarrow> sdpcandidate \<Rightarrow> int" where
  "candidate_sort_cb c1 c2 =
     (let cmp = sipe_strcompare (foundation c1) (foundation c2)
      in if cmp = 0
         then (let cmp = sipe_strcompare (username c1) (username c2)
               in if cmp = 0
                  then component_value (component c1) - component_value (component c2)
                  else cmp)
         else cmp)"

text \<open>
  \<^verbatim>\<open>g_slist_insert_sorted\<close> of GLib: the new element goes before the first element
  that it does not compare greater than.
\<close>

fun g_slist_insert_sorted :: "('a \<Rightarrow> 'a \<Rightarrow> int) \<Rightarrow> 'a \<Rightarrow> 'a list \<Rightarrow> 'a list" where
  "g_slist_insert_sorted func data [] = [data]"
| "g_slist_insert_sorted func data (x # xs) =
     (if func data x > 0 then x # g_slist_insert_sorted func data xs else data # x # xs)"

definition backend_candidates_to_sdpcandidate ::
  "sipe_backend_candidate list \<Rightarrow> sdpcandidate list" where
  "backend_candidates_to_sdpcandidate candidates =
     foldl (\<lambda>result candidate.
        case bc_ip candidate of
          None \<Rightarrow> result
        | Some ip' \<Rightarrow>
            if ip' = [] \<or> CHR '':'' \<in> set ip' \<or>
               (case bc_base_ip candidate of None \<Rightarrow> False | Some b \<Rightarrow> CHR '':'' \<in> set b)
            then result
            else g_slist_insert_sorted candidate_sort_cb
                   \<lparr> foundation = bc_foundation candidate,
                     component = bc_component candidate,
                     cand_type = bc_type candidate,
                     protocol = bc_protocol candidate,
                     ip = ip',
                     port = bc_port candidate,
                     base_ip = bc_base_ip candidate,
                     base_port = bc_base_port candidate,
                     priority = bc_priority candidate,
                     username = bc_username candidate,
                     password = bc_password candidate \<rparr> result)
       [] candidates"

text \<open>
  \<^verbatim>\<open>get_stream_ip_and_ports\<close>: the loop state is \<^verbatim>\<open>(*ip, *rtp_port, *rtcp_port)\<close>,
  starting from \<^verbatim>\<open>(NULL, 0, 0)\<close>; the \<^verbatim>\<open>continue\<close> goes straight to the next
  candidate, every other path ends with the test that returns once both ports are set.
\<close>

fun get_stream_ip_and_ports_loop ::
  "SipeCandidateType \<Rightarrow> sdpcandidate list \<Rightarrow> string option \<times> guint \<times> guint \<Rightarrow>
   string option \<times> guint \<times> guint" where
  "get_stream_ip_and_ports_loop type [] st = st"
| "get_stream_ip_and_ports_loop type (candidate # rest) (ip0, rtp_port, rtcp_port) =
     (if type = SIPE_CANDIDATE_TYPE_ANY \<or> cand_type candidate = type
      then
        (if ip0 \<noteq> None \<and> ip0 \<noteq> Some (ip candidate)
         then get_stream_ip_and_ports_loop type rest (ip0, rtp_port, rtcp_port)
         else
           (let ip1 = (if ip0 = None then Some (ip candidate) else ip0);
                rtp1 = (if component candidate = SIPE_COMPONENT_RTP
                        then port candidate else rtp_port);
                rtcp1 = (if component candidate = SIPE_COMPONENT_RTP
                         then rtcp_port
                         else if component candidate = SIPE_COMPONENT_RTCP
                         then port candidate else rtcp_port)
            in if rtp1 \<noteq> 0 \<and> rtcp1 \<noteq> 0
               then (ip1, rtp1, rtcp1)
               else get_stream_ip_and_ports_loop type rest (ip1, rtp1, rtcp1)))
      else if rtp_port \<noteq> 0 \<and> rtcp_port \<noteq> 0
           then (ip0, rtp_port, rtcp_port)
           else get_stream_ip_and_ports_loop type rest (ip0, rtp_port, rtcp_port))"

definition get_stream_ip_and_ports ::
  "sdpcandidate list \<Rightarrow> SipeCandidateType \<Rightarrow> string option \<times> guint \<times> guint" where
  "get_stream_ip_and_ports candidates type =
     get_stream_ip_and_ports_loop type candidates (None, 0, 0)"

subsection \<open>Codecs\<close>

text \<open>
  \<^verbatim>\<open>sdpcodec_compare\<close> subtracts two \<^verbatim>\<open>int\<close> payload ids; the difference is taken in
  32 bits and read as signed.
\<close>

definition sdpcodec_compare :: "sdpcodec \<Rightarrow> sdpcodec \<Rightarrow> int" where
  "sdpcodec_compare a b = sint (codec_id a - codec_id b)"

text \<open>
  Modelled from the spec: \<^verbatim>\<open>sipe_utils_slist_insert_unique_sorted\<close> of
  \<^verbatim>\<open>sipe-utils.c\<close>, which is not among the sources. Codecs within a media section are
  kept sorted by payload id and de-duplicated on id: an element that compares equal to
  one already in the list is dropped (and destroyed), any other element is inserted in
  sorted position.
\<close>

definition sipe_utils_slist_insert_unique_sorted ::
  "'a list \<Rightarrow> 'a \<Rightarrow> ('a \<Rightarrow> 'a \<Rightarrow> int) \<Rightarrow> 'a list" where
  "sipe_utils_slist_insert_unique_sorted list data func =
     (if find (\<lambda>e. func e data = 0) list = None
      then g_slist_insert_sorted func data list
      else list)"

definition backend_codec_to_sdpcodec :: "SipeMediaType \<Rightarrow> sipe_backend_codec \<Rightarrow> sdpcodec" where
  "backend_codec_to_sdpcodec type codec =
     \<lparr> codec_id = bcodec_id codec, codec_name = bcodec_name codec,
       clock_rate = bcodec_clock_rate codec, codec_type = type,
       parameters = bcodec_optional_parameters codec \<rparr>"

text \<open>The codec loop of \<^verbatim>\<open>media_stream_to_sdpmedia\<close>, and one pass through its body.\<close>

definition codec_step ::
  "SipeMediaType \<Rightarrow> sdpcodec list \<Rightarrow> sipe_backend_codec \<Rightarrow> sdpcodec list" where
  "codec_step type result codec =
     sipe_utils_slist_insert_unique_sorted result (backend_codec_to_sdpcodec type codec)
       sdpcodec_compare"

definition process_codecs :: "SipeMediaType \<Rightarrow> sipe_backend_codec list \<Rightarrow> sdpcodec list" where
  "process_codecs type codecs = foldl (codec_step type) [] codecs"

subsection \<open>Candidates reported by old backends\<close>

text \<open>
  A failure of the C program that the model keeps as a value: reading an object that has
  been freed, reading through a \<^verbatim>\<open>NULL\<close> pointer (as \<^verbatim>\<open>g_str_hash\<close> does with a
  \<^verbatim>\<open>NULL\<close> key), and a failed \<^verbatim>\<open>g_assert\<close>.
\<close>

datatype error = UseAfterFree | NullPointer | AssertionFailed

text \<open>
  An entry of the table \<^verbatim>\<open>foundation_to_candidate\<close>: the candidate it points to, or a
  pointer left behind by \<^verbatim>\<open>sipe_backend_candidate_free\<close>.
\<close>

datatype candidate_ptr = Valid sipe_backend_candidate | Dangling

text \<open>
  \<^verbatim>\<open>remove_wrong_farstream_0_1_tcp_candidates\<close>. The list is split at the cursor
  \<^verbatim>\<open>i\<close>: \<open>kept\<close> holds the nodes before it that are still linked, in order. The table
  only ever holds the first UDP candidate of a foundation, which comes before the
  cursor, so \<^verbatim>\<open>g_list_remove(candidates, c2)\<close> removes it from \<open>kept\<close>. A match frees
  both candidates and leaves the table entry behind; the source reads the ports of
  that entry again when a third UDP candidate of the foundation follows.
\<close>

text \<open>The test of the inner \<^verbatim>\<open>if\<close>, on the candidate at the cursor and the table entry.\<close>

definition mistagged_tcp_pair :: "sipe_backend_candidate \<Rightarrow> sipe_backend_candidate \<Rightarrow> bool" where
  "mistagged_tcp_pair c1 c2 =
     (bc_port c1 = bc_port c2 \<or>
      (bc_type c1 \<noteq> SIPE_CANDIDATE_TYPE_HOST \<and> bc_base_port c1 = bc_base_port c2))"

fun remove_wrong_loop ::
  "(string \<rightharpoonup> candidate_ptr) \<Rightarrow> sipe_backend_candidate list \<Rightarrow>
   sipe_backend_candidate list \<Rightarrow> error + sipe_backend_candidate list" where
  "remove_wrong_loop foundation_to_candidate kept [] = Inr kept"
| "remove_wrong_loop foundation_to_candidate kept (c1 # rest) =
     (if bc_protocol c1 = SIPE_NETWORK_PROTOCOL_UDP
      then
        (case foundation_to_candidate (bc_foundation c1) of
           None \<Rightarrow>
             remove_wrong_loop (foundation_to_candidate(bc_foundation c1 \<mapsto> Valid c1))
               (kept @ [c1]) rest
         | Some Dangling \<Rightarrow> Inl UseAfterFree
         | Some (Valid c2) \<Rightarrow>
             if mistagged_tcp_pair c1 c2
             then remove_wrong_loop (foundation_to_candidate(bc_foundation c1 \<mapsto> Dangling))
                    (remove1 c2 kept) rest
             else remove_wrong_loop foundation_to_candidate (kept @ [c1]) rest)
      else remove_wrong_loop foundation_to_candidate (kept @ [c1]) rest)"

definition remove_wrong_farstream_0_1_tcp_candidates ::
  "sipe_backend_candidate list \<Rightarrow> error + sipe_backend_candidate list" where
  "remove_wrong_farstream_0_1_tcp_candidates candidates =
     remove_wrong_loop Map.empty [] candidates"

subsection \<open>Ports of TCP-active and relay candidates\<close>

text \<open>
  \<^verbatim>\<open>fill_zero_tcp_act_ports_from_tcp_pass\<close>, first loop. The list is split at the cursor:
  \<open>visited\<close> holds the candidates already visited (as updated), the inner loop scans the
  whole list as it is then. The table \<^verbatim>\<open>ip_to_port\<close> maps the IP of a TCP-passive host
  candidate to a pointer to its port; the port of a TCP-passive candidate is never
  written, so the table holds the port itself. A later insertion under the same key
  replaces the earlier one.
\<close>

definition passive_match :: "sdpcandidate \<Rightarrow> sdpcandidate \<Rightarrow> bool" where
  "passive_match c passive =
     (\<not> (protocol passive \<noteq> SIPE_NETWORK_PROTOCOL_TCP_PASSIVE \<or>
          cand_type c \<noteq> cand_type passive) \<and>
      ip c = ip passive \<and> base_ip c = base_ip passive)"

definition inherit_from_passive :: "sdpcandidate \<Rightarrow> sdpcandidate option \<Rightarrow> sdpcandidate" where
  "inherit_from_passive c found =
     (case found of
        None \<Rightarrow> c
      | Some passive \<Rightarrow>
          c\<lparr> port := (if port c = 0 then port passive else port c),
             base_port := (if base_port c = 0 then base_port passive else base_port c) \<rparr>)"

fun fill_tcp_act_loop ::
  "(string \<rightharpoonup> guint) \<Rightarrow> sdpcandidate list \<Rightarrow> sdpcandidate list \<Rightarrow>
   sdpcandidate list \<times> (string \<rightharpoonup> guint)" where
  "fill_tcp_act_loop ip_to_port visited [] = (visited, ip_to_port)"
| "fill_tcp_act_loop ip_to_port visited (c # rest) =
     (let ip_to_port' =
            (if protocol c = SIPE_NETWORK_PROTOCOL_TCP_PASSIVE \<and>
                cand_type c = SIPE_CANDIDATE_TYPE_HOST
             then ip_to_port(ip c \<mapsto> port c) else ip_to_port)
      in if protocol c \<noteq> SIPE_NETWORK_PROTOCOL_TCP_ACTIVE
         then fill_tcp_act_loop ip_to_port' (visited @ [c]) rest
         else fill_tcp_act_loop ip_to_port'
                (visited @ [inherit_from_passive c (find (passive_match c) (visited @ c # rest))])
                rest)"

text \<open>
  Second loop: the base port of a relay candidate that is still 0 is looked up under
  the candidate's base IP. \<^verbatim>\<open>g_str_hash\<close> reads its key, so a \<^verbatim>\<open>NULL\<close> base IP is a
  failure.
\<close>

fun fill_relay_base_ports ::
  "(string \<rightharpoonup> guint) \<Rightarrow> sdpcandidate list \<Rightarrow> error + sdpcandidate list" where
  "fill_relay_base_ports ip_to_port [] = Inr []"
| "fill_relay_base_ports ip_to_port (c # rest) =
     (if cand_type c = SIPE_CANDIDATE_TYPE_RELAY \<and> base_port c = 0
      then (case base_ip c of
              None \<Rightarrow> Inl NullPointer
            | Some key \<Rightarrow>
                (case fill_relay_base_ports ip_to_port rest of
                   Inl e \<Rightarrow> Inl e
                 | Inr rest' \<Rightarrow>
                     Inr ((case ip_to_port key of
                             Some base_port' \<Rightarrow> c\<lparr>base_port := base_port'\<rparr>
                           | None \<Rightarrow> c) # rest')))
      else (case fill_relay_base_ports ip_to_port rest of
              Inl e \<Rightarrow> Inl e
            | Inr rest' \<Rightarrow> Inr (c # rest')))"

definition fill_zero_tcp_act_ports_from_tcp_pass ::
  "sdpcandidate list \<Rightarrow> error + sdpcandidate list" where
  "fill_zero_tcp_act_ports_from_tcp_pass candidates =
     (let (candidates', ip_to_port) = fill_tcp_act_loop Map.empty [] candidates
      in fill_relay_base_ports ip_to_port candidates')"

section \<open>Serialising a call\<close>

text \<open>\<^verbatim>\<open>g_strdup_printf("%u", n)\<close>: the decimal digits of a number.\<close>

definition digit :: "nat \<Rightarrow> char" where
  "digit d = ''0123456789'' ! d"

fun decimal :: "nat \<Rightarrow> string" where
  "decimal n = (if n < 10 then [digit n] else decimal (n div 10) @ [digit (n mod 10)])"

declare decimal.simps [simp del]

definition get_encryption_policy :: "'a media_settings_scheme \<Rightarrow> SipeEncryptionPolicy" where
  "get_encryption_policy sipe_private =
     (let result = backend_encryption_policy sipe_private
      in if result = SIPE_ENCRYPTION_POLICY_OBEY_SERVER
         then server_av_encryption_policy sipe_private
         else result)"

text \<open>The chain of \<^verbatim>\<open>sipe_strequal\<close> tests on the stream id; \<open>None\<close> is the final else.\<close>

definition media_type_of_name :: "string \<Rightarrow> SipeMediaType option" where
  "media_type_of_name name =
     (if name = ''audio'' then Some SIPE_MEDIA_AUDIO
      else if name = ''video'' then Some SIPE_MEDIA_VIDEO
      else if name = ''data'' then Some SIPE_MEDIA_APPLICATION
      else if name = ''applicationsharing'' then Some SIPE_MEDIA_APPLICATION
      else None)"

definition encryption_attribute :: "SipeEncryptionPolicy \<Rightarrow> string" where
  "encryption_attribute encryption_policy =
     (case encryption_policy of
        SIPE_ENCRYPTION_POLICY_REJECTED \<Rightarrow> ''rejected''
      | SIPE_ENCRYPTION_POLICY_OPTIONAL \<Rightarrow> ''optional''
      | _ \<Rightarrow> ''required'')"

text \<open>The local candidates of a stream, as \<^verbatim>\<open>media_stream_to_sdpmedia\<close> picks them.\<close>

definition stream_local_candidates ::
  "sipe_backend_media_stream \<Rightarrow> error + sipe_backend_candidate list" where
  "stream_local_candidates backend =
     (if active_local_candidates backend = []
      then remove_wrong_farstream_0_1_tcp_candidates (local_candidates backend)
      else Inr (active_local_candidates backend))"

text \<open>
  \<^verbatim>\<open>media_stream_to_sdpmedia\<close>: \<open>Inr None\<close> is the \<^verbatim>\<open>NULL\<close> returned for a stream whose
  id names no known media.
\<close>

definition media_stream_to_sdpmedia ::
  "'a media_settings_scheme \<Rightarrow> sipe_media_call_private \<Rightarrow> sipe_media_stream_private \<Rightarrow>
   error + sdpmedia option" where
  "media_stream_to_sdpmedia sipe_private call_private stream_private =
     (let backend = backend_private stream_private;
          encryption_policy = get_encryption_policy sipe_private
      in case media_type_of_name (stream_id stream_private) of
           None \<Rightarrow> Inr None
         | Some type \<Rightarrow>
             (case stream_local_candidates backend of
                Inl e \<Rightarrow> Inl e
              | Inr candidates \<Rightarrow>
                  (case fill_zero_tcp_act_ports_from_tcp_pass
                          (backend_candidates_to_sdpcandidate candidates) of
                     Inl e \<Rightarrow> Inl e
                   | Inr sdp_candidates \<Rightarrow>
                       (let (ip1, port1, rtcp1) =
                              get_stream_ip_and_ports sdp_candidates SIPE_CANDIDATE_TYPE_HOST;
                            (ip2, port2, rtcp_port) =
                              (if ip1 = None \<and> sdp_candidates \<noteq> []
                               then get_stream_ip_and_ports sdp_candidates SIPE_CANDIDATE_TYPE_ANY
                               else (ip1, port1, rtcp1));
                            attributes0 =
                              (if held backend
                               then sipe_utils_nameval_add [] ''inactive'' (Some [])
                               else []);
                            attributes1 =
                              (if rtcp_port \<noteq> 0
                               then sipe_utils_nameval_add attributes0 ''rtcp''
                                      (Some (decimal (unat rtcp_port)))
                               else attributes0);
                            attributes2 =
                              (if encryption_policy \<noteq> server_av_encryption_policy sipe_private
                               then sipe_utils_nameval_add attributes1 ''encryption''
                                      (Some (encryption_attribute encryption_policy))
                               else attributes1);
                            key_is_sent =
                              (encryption_key stream_private \<noteq> None \<and>
                               encryption_policy \<noteq> SIPE_ENCRYPTION_POLICY_REJECTED)
                        in Inr (Some
                             \<lparr> media_name = stream_id stream_private,
                               media_ip = ip2,
                               media_port = port2,
                               media_attributes =
                                 foldl (\<lambda>attributes attr.
                                          sipe_utils_nameval_add attributes (fst attr) (snd attr))
                                   attributes2 (extra_sdp stream_private),
                               media_candidates = sdp_candidates,
                               media_codecs = process_codecs type (local_codecs backend),
                               media_remote_candidates =
                                 backend_candidates_to_sdpcandidate
                                   (active_remote_candidates backend),
                               media_encryption_active =
                                 (encryption_key stream_private \<noteq> None \<and>
                                  encryption_compatible call_private \<and>
                                  remote_candidates_and_codecs_set stream_private \<and>
                                  encryption_policy \<noteq> SIPE_ENCRYPTION_POLICY_REJECTED),
                               media_encryption_key =
                                 (if key_is_sent then encryption_key stream_private else None),
                               media_encryption_key_id =
                                 (if key_is_sent then encryption_key_id stream_private else 0)
                             \<rparr>)))))"

text \<open>
  The stream loop of \<^verbatim>\<open>sipe_media_to_sdpmsg\<close>: the media sections of the streams, in
  order, without the streams that give \<^verbatim>\<open>NULL\<close>.
\<close>

fun streams_to_sdpmedia ::
  "'a media_settings_scheme \<Rightarrow> sipe_media_call_private \<Rightarrow> sipe_media_stream_private list \<Rightarrow>
   error + sdpmedia list" where
  "streams_to_sdpmedia sipe_private call_private [] = Inr []"
| "streams_to_sdpmedia sipe_private call_private (stream # rest) =
     (case media_stream_to_sdpmedia sipe_private call_private stream of
        Inl e \<Rightarrow> Inl e
      | Inr media \<Rightarrow>
          (case streams_to_sdpmedia sipe_private call_private rest of
             Inl e \<Rightarrow> Inl e
           | Inr medias \<Rightarrow> Inr ((case media of None \<Rightarrow> [] | Some m \<Rightarrow> [m]) @ medias)))"

text \<open>
  \<^verbatim>\<open>sipe_media_to_sdpmsg\<close>: the message takes over the call's failed media sections, and
  the call's list is emptied.
\<close>

definition sipe_media_to_sdpmsg ::
  "'a media_settings_scheme \<Rightarrow> sipe_media_call_private \<Rightarrow>
   error + (sdpmsg \<times> sipe_media_call_private)" where
  "sipe_media_to_sdpmsg sipe_private call_private =
     (case streams_to_sdpmedia sipe_private call_private (streams call_private) of
        Inl e \<Rightarrow> Inl e
      | Inr medias \<Rightarrow>
          Inr (\<lparr> sdp_ip = foldl (\<lambda>msg_ip media. if msg_ip = None then media_ip media else msg_ip)
                            None medias,
                 sdp_media = medias @ failed_media call_private,
                 sdp_ice_version = ice_version call_private \<rparr>,
               call_private\<lparr>failed_media := []\<rparr>))"

section \<open>Applying a remote SDP message\<close>

fun sipe_core_media_get_stream_by_id ::
  "sipe_media_stream_private list \<Rightarrow> string \<Rightarrow> sipe_media_stream_private option" where
  "sipe_core_media_get_stream_by_id [] sid = None"
| "sipe_core_media_get_stream_by_id (stream # rest) sid =
     (if stream_id stream = sid then Some stream
      else sipe_core_media_get_stream_by_id rest sid)"

text \<open>Writing through the pointer that \<^verbatim>\<open>sipe_core_media_get_stream_by_id\<close> returned.\<close>

fun store_stream ::
  "sipe_media_stream_private list \<Rightarrow> string \<Rightarrow> sipe_media_stream_private \<Rightarrow>
   sipe_media_stream_private list" where
  "store_stream [] sid new = []"
| "store_stream (stream # rest) sid new =
     (if stream_id stream = sid then new # rest else stream # store_stream rest sid new)"

definition sdpcodec_to_backend_codec :: "sdpcodec \<Rightarrow> sipe_backend_codec" where
  "sdpcodec_to_backend_codec c =
     \<lparr> bcodec_id = codec_id c, bcodec_name = codec_name c,
       bcodec_clock_rate = clock_rate c, bcodec_type = codec_type c,
       bcodec_optional_parameters = parameters c \<rparr>"

text \<open>
  \<^verbatim>\<open>sipe_backend_candidate_new\<close> takes no base address; the new candidate has none.
\<close>

definition sdpcandidate_to_backend_candidate :: "sdpcandidate \<Rightarrow> sipe_backend_candidate" where
  "sdpcandidate_to_backend_candidate c =
     \<lparr> bc_foundation = foundation c, bc_component = component c, bc_type = cand_type c,
       bc_protocol = protocol c, bc_ip = Some (ip c), bc_port = port c,
       bc_base_ip = None, bc_base_port = 0, bc_priority = priority c,
       bc_username = username c, bc_password = password c \<rparr>"

definition set_held :: "bool \<Rightarrow> sipe_media_stream_private \<Rightarrow> sipe_media_stream_private" where
  "set_held h stream = stream\<lparr>backend_private := (backend_private stream)\<lparr>held := h\<rparr>\<rparr>"

text \<open>
  What the backend does: its answer to \<^verbatim>\<open>sipe_backend_set_remote_codecs\<close> for a stream
  id and a codec list, whether \<^verbatim>\<open>sipe_backend_media_stream_end\<close> calls
  \<^verbatim>\<open>stream_end_cb\<close> and \<^verbatim>\<open>sipe_backend_media_hangup\<close> calls \<^verbatim>\<open>media_end_cb\<close> before
  they return or leave that to a later event, its answer to
  \<^verbatim>\<open>sipe_backend_media_add_stream\<close>, and the address that
  \<^verbatim>\<open>sipe_backend_network_ip_address\<close> returns.
\<close>

record media_backend =
  accepts_remote_codecs :: "string \<Rightarrow> sipe_backend_codec list \<Rightarrow> bool"
  ends_stream_at_once :: bool
  ends_media_at_once :: bool
  add_stream :: "add_stream_request \<Rightarrow> sipe_backend_media_stream option"
  network_ip_address :: string

text \<open>
  \<^verbatim>\<open>stream_end_cb\<close> is \<^verbatim>\<open>remove_stream\<close>: the stream leaves the call's list. The stream
  at hand is the one that \<^verbatim>\<open>sipe_core_media_get_stream_by_id\<close> found, the first of its
  id.
\<close>

fun remove_stream ::
  "sipe_media_stream_private list \<Rightarrow> string \<Rightarrow> sipe_media_stream_private list" where
  "remove_stream [] sid = []"
| "remove_stream (stream # rest) sid =
     (if stream_id stream = sid then rest else stream # remove_stream rest sid)"

definition sipe_backend_media_stream_end ::
  "media_backend \<Rightarrow> sipe_media_call_private \<Rightarrow> string \<Rightarrow> sipe_media_call_private" where
  "sipe_backend_media_stream_end backend call_private sid =
     (if ends_stream_at_once backend
      then call_private\<lparr>streams := remove_stream (streams call_private) sid\<rparr>
      else call_private)"

text \<open>
  The requests that go with it: the one to end the stream and, from \<^verbatim>\<open>remove_stream\<close>, the
  one to free it.
\<close>

definition stream_end_events :: "media_backend \<Rightarrow> string \<Rightarrow> event list" where
  "stream_end_events backend sid =
     BackendMediaStreamEnd sid #
     (if ends_stream_at_once backend then [BackendMediaStreamFree sid] else [])"

text \<open>
  \<^verbatim>\<open>update_call_from_remote_sdp\<close>. Holding and unholding set the flag that
  \<^verbatim>\<open>sipe_backend_stream_is_held\<close> reads.
\<close>

definition update_call_from_remote_sdp ::
  "media_backend \<Rightarrow> sipe_media_call_private \<Rightarrow> sdpmedia \<Rightarrow>
   bool \<times> sipe_media_call_private \<times> event list" where
  "update_call_from_remote_sdp backend call_private media =
     (let stream = sipe_core_media_get_stream_by_id (streams call_private) (media_name media)
      in if media_port media = 0
         then (case stream of
                 None \<Rightarrow> (True, call_private, [])
               | Some s \<Rightarrow>
                   (True, sipe_backend_media_stream_end backend call_private (stream_id s),
                    stream_end_events backend (stream_id s)))
         else
           (case stream of
              None \<Rightarrow> (False, call_private, [])
            | Some s \<Rightarrow>
                (let sid = stream_id s;
                     (s1, ev1) =
                       (if sipe_utils_nameval_find (media_attributes media) ''inactive'' \<noteq> None
                        then (set_held True s, [BackendStreamHold sid])
                        else if held (backend_private s)
                        then (set_held False s, [BackendStreamUnhold sid])
                        else (s, []))
                 in if remote_candidates_and_codecs_set s1
                    then (True, call_private\<lparr>streams := store_stream (streams call_private) sid s1\<rparr>,
                          ev1)
                    else
                      (let backend_codecs = map sdpcodec_to_backend_codec (media_codecs media);
                           (s2, ev2) =
                             (case (media_encryption_key media, encryption_key s1) of
                                (Some remote_key, Some local_key) \<Rightarrow>
                                  (s1\<lparr>encryption_key_id := media_encryption_key_id media\<rparr>,
                                   [BackendSetEncryptionKeys sid local_key remote_key])
                              | _ \<Rightarrow> (s1, []));
                           ev3 = ev1 @ ev2 @ [BackendSetRemoteCodecs sid backend_codecs]
                       in if \<not> accepts_remote_codecs backend sid backend_codecs
                          then (False,
                                sipe_backend_media_stream_end backend
                                  (call_private\<lparr>streams :=
                                     store_stream (streams call_private) sid s2\<rparr>) sid,
                                ev3 @ stream_end_events backend sid)
                          else (True,
                                call_private\<lparr>streams := store_stream (streams call_private) sid
                                   (s2\<lparr>remote_candidates_and_codecs_set := True\<rparr>)\<rparr>,
                                ev3 @ [BackendAddRemoteCandidates sid
                                         (map sdpcandidate_to_backend_candidate
                                            (media_candidates media))])))))"

text \<open>
  The first loop of \<^verbatim>\<open>apply_remote_message\<close>. Beside the call it returns the media
  sections that did not fail, which are what the second loop leaves in the message.
\<close>

fun apply_remote_media ::
  "'a media_settings_scheme \<Rightarrow> media_backend \<Rightarrow> sipe_media_call_private \<Rightarrow> sdpmedia list \<Rightarrow>
   sipe_media_call_private \<times> sdpmedia list \<times> event list" where
  "apply_remote_media sipe_private backend call_private [] = (call_private, [], [])"
| "apply_remote_media sipe_private backend call_private (media # rest) =
     (let enc_level = sipe_utils_nameval_find (media_attributes media) ''encryption'';
          call1 =
            (if enc_level = Some ''rejected'' \<and>
                get_encryption_policy sipe_private = SIPE_ENCRYPTION_POLICY_REQUIRED
             then call_private\<lparr>encryption_compatible := False\<rparr>
             else call_private);
          (ok, call2, ev) = update_call_from_remote_sdp backend call1 media;
          call3 =
            (if \<not> ok
             then call2\<lparr>failed_media := failed_media call2 @ [media\<lparr>media_port := 0\<rparr>]\<rparr>
             else call2);
          (call4, left, ev') = apply_remote_media sipe_private backend call3 rest
      in (call4, (if ok then [media] else []) @ left, ev @ ev'))"

text \<open>
  \<^verbatim>\<open>apply_remote_message\<close>: the result is \<^verbatim>\<open>msg->media != NULL\<close>, the call, the message
  without its failed sections, and the requests made to the backend.
\<close>

definition apply_remote_message ::
  "'a media_settings_scheme \<Rightarrow> media_backend \<Rightarrow> sipe_media_call_private \<Rightarrow> sdpmsg \<Rightarrow>
   bool \<times> sipe_media_call_private \<times> sdpmsg \<times> event list" where
  "apply_remote_message sipe_private backend call_private msg =
     (let call0 = call_private\<lparr>failed_media := [], encryption_compatible := True\<rparr>;
          (call1, left, ev) = apply_remote_media sipe_private backend call0 (sdp_media msg)
      in (left \<noteq> [], call1, msg\<lparr>sdp_media := left\<rparr>, ev))"

section \<open>Responses to an outgoing INVITE\<close>

text \<open>
  Modelled from the spec: \<^verbatim>\<open>sipmsg_find_header\<close> of \<^verbatim>\<open>sipmsg.c\<close>, which is not among
  the sources: the value of the header of that name, \<^verbatim>\<open>NULL\<close> when the message has
  none.
\<close>

definition sipmsg_find_header :: "sipmsg \<Rightarrow> string \<Rightarrow> string option" where
  "sipmsg_find_header msg name = map_of (msg_headers msg) name"

text \<open>
  \<^verbatim>\<open>sipe_media_from_sipmsg\<close>: a lookup in the registry under the Call-ID header.
  \<^verbatim>\<open>g_str_hash\<close> reads its key, so a message without the header is a failure.
\<close>

definition sipe_media_from_sipmsg ::
  "sipe_core_private \<Rightarrow> sipmsg \<Rightarrow> error + (string \<times> sipe_media_call_private) option" where
  "sipe_media_from_sipmsg sipe_private msg =
     (case sipmsg_find_header msg ''Call-ID'' of
        None \<Rightarrow> Inl NullPointer
      | Some callid \<Rightarrow>
          Inr (case media_calls sipe_private callid of
                 None \<Rightarrow> None
               | Some call_private \<Rightarrow> Some (callid, call_private)))"

definition sipe_media_get_sip_dialog :: "sipe_media_call_private \<Rightarrow> sip_dialog option" where
  "sipe_media_get_sip_dialog call =
     (case session call of
        None \<Rightarrow> None
      | Some s \<Rightarrow> (case dialogs s of [] \<Rightarrow> None | d # _ \<Rightarrow> Some d))"

text \<open>Writing through the pointer that \<^verbatim>\<open>sipe_media_get_sip_dialog\<close> returned.\<close>

definition call_store_dialog ::
  "sipe_media_call_private \<Rightarrow> sip_dialog \<Rightarrow> sipe_media_call_private" where
  "call_store_dialog call dialog =
     call\<lparr>session := map_option (\<lambda>s. s\<lparr>dialogs := dialog # tl (dialogs s)\<rparr>) (session call)\<rparr>"

definition store_call ::
  "sipe_core_private \<Rightarrow> string \<Rightarrow> sipe_media_call_private \<Rightarrow> sipe_core_private" where
  "store_call sipe_private callid call =
     sipe_private\<lparr>media_calls := (media_calls sipe_private)(callid \<mapsto> call)\<rparr>"

text \<open>
  \<^verbatim>\<open>sipe_media_send_ack\<close>. What \<^verbatim>\<open>sip_transport_ack\<close> does to the dialog it is given
  is the parameter \<open>sip_transport_ack\<close>; the event records the dialog as the transport
  receives it. \<^verbatim>\<open>is_media_session_msg\<close> repeats the lookup and compares the two results,
  so it holds exactly when the lookup finds a call.
\<close>

definition sipe_media_send_ack ::
  "(sip_dialog \<Rightarrow> sip_dialog) \<Rightarrow> sipe_core_private \<Rightarrow> sipmsg \<Rightarrow> transaction \<Rightarrow>
   error + (bool \<times> sipe_core_private \<times> event list)" where
  "sipe_media_send_ack sip_transport_ack sipe_private msg tr =
     (case sipe_media_from_sipmsg sipe_private msg of
        Inl e \<Rightarrow> Inl e
      | Inr None \<Rightarrow> Inr (False, sipe_private, [])
      | Inr (Some (callid, call_private)) \<Rightarrow>
          (case sipe_media_get_sip_dialog call_private of
             None \<Rightarrow> Inr (False, sipe_private, [])
           | Some dialog \<Rightarrow>
               (let tmp_cseq = cseq dialog;
                    dialog1 = dialog\<lparr>cseq := trans_cseq tr - 1\<rparr>;
                    dialog2 = sip_transport_ack dialog1;
                    dialog3 = dialog2\<lparr>cseq := tmp_cseq\<rparr>;
                    dialog4 = dialog3\<lparr>outgoing_invite := None\<rparr>
                in Inr (True,
                        store_call sipe_private callid (call_store_dialog call_private dialog4),
                        [SipTransportAck dialog1]))))"

subsection \<open>Creating and ending calls\<close>
















subsection \<open>The retry of an outgoing call\<close>





section \<open>An incoming INVITE\<close>











section \<open>Media relay credentials\<close>

text \<open>
  What \<^verbatim>\<open>sipe_xml_parse\<close> and the accessors of \<^verbatim>\<open>sipe-xml.c\<close> read from the body of a
  response of the MRAS service: the \<^verbatim>\<open>reasonPhrase\<close> attribute, the credentials, and for
  each \<^verbatim>\<open>mediaRelay\<close> its host name and, where the node is there, \<^verbatim>\<open>atoi\<close> of its ports.
\<close>

record media_relay_xml =
  xml_hostName :: "string option"
  xml_udpPort :: "guint option"
  xml_tcpPort :: "guint option"

record credentials_response_xml =
  xml_reasonPhrase :: "string option"
  xml_username :: "string option"
  xml_password :: "string option"
  xml_mediaRelayList :: "media_relay_xml list"

definition sipe_media_relay_list_free :: "sipe_media_relay list \<Rightarrow> event list" where
  "sipe_media_relay_list_free list =
     concat (map (\<lambda>relay. if dns_query relay then [BackendDnsQueryCancel (hostname relay)] else [])
               list)"

definition relay_of_xml :: "media_relay_xml \<Rightarrow> sipe_media_relay" where
  "relay_of_xml item =
     \<lparr> hostname = xml_hostName item,
       udp_port = (case xml_udpPort item of None \<Rightarrow> 0 | Some p \<Rightarrow> p),
       tcp_port = (case xml_tcpPort item of None \<Rightarrow> 0 | Some p \<Rightarrow> p),
       dns_query = True \<rparr>"

definition process_get_av_edge_credentials_response ::
  "(string \<Rightarrow> credentials_response_xml) \<Rightarrow> 'a media_settings_scheme \<Rightarrow> sipmsg \<Rightarrow>
   bool \<times> 'a media_settings_scheme \<times> event list" where
  "process_get_av_edge_credentials_response sipe_xml_parse sipe_private msg =
     (let freed = sipe_media_relay_list_free (media_relays sipe_private);
          sipe_private0 = sipe_private\<lparr> media_relay_username := None,
                                         media_relay_password := None,
                                         media_relays := [] \<rparr>
      in if msg_response msg \<ge> 400
         then (False, sipe_private0, freed)
         else if msg_response msg = 200
         then
           (let xn_response = sipe_xml_parse (msg_body msg)
            in if xml_reasonPhrase xn_response = Some ''OK''
               then
                 (let relays = map relay_of_xml (xml_mediaRelayList xn_response)
                  in (True,
                      sipe_private0\<lparr> media_relay_username := xml_username xn_response,
                                      media_relay_password := xml_password xn_response,
                                      media_relays := relays \<rparr>,
                      freed @ map (\<lambda>relay. BackendDnsQueryA (hostname relay) (udp_port relay))
                                relays))
               else (True, sipe_private0, freed))
         else (True, sipe_private0, freed))"

section \<open>Lync file transfer: the end of a transfer\<close>

text \<open>
  \<^verbatim>\<open>ft_lync_incoming_end\<close>: the receiver reports the range of bytes it has. The format
  \<^verbatim>\<open>%d\<close> prints an \<^verbatim>\<open>int\<close>, the low 32 bits of the \<^verbatim>\<open>gsize\<close> it is given.
\<close>

definition send_ms_filetransfer_msg :: "ft_message \<Rightarrow> event list" where
  "send_ms_filetransfer_msg body = [SipTransportInfo body]"

definition ft_lync_incoming_end ::
  "gint \<Rightarrow> sipe_file_transfer_lync \<Rightarrow> bool \<times> sipe_file_transfer_lync \<times> event list" where
  "ft_lync_incoming_end rand ft_private =
     (True, ft_private\<lparr>ft_deallocate := False\<rparr>,
      send_ms_filetransfer_msg
        (FILETRANSFER_PROGRESS rand (request_id ft_private) (ucast (file_size ft_private - 1))))"

definition sipe_file_transfer_lync_free :: "sipe_file_transfer_lync \<Rightarrow> event list" where
  "sipe_file_transfer_lync_free ft_private =
     (if write_source_id ft_private \<noteq> 0 then [GSourceRemove (write_source_id ft_private)] else [])"

definition ft_lync_deallocate :: "sipe_file_transfer_lync \<Rightarrow> event list" where
  "ft_lync_deallocate ft_private =
     (case ft_call_private ft_private of
        None \<Rightarrow> []
      | Some call \<Rightarrow> [BackendMediaHangup call True]) @
     sipe_file_transfer_lync_free ft_private"

text \<open>
  A \<^verbatim>\<open>notify\<close> message as \<^verbatim>\<open>process_notify\<close> reads it: whether it has a
  \<^verbatim>\<open>fileTransferProgress\<close> child and, when the element \<^verbatim>\<open>bytesReceived/to\<close> is there,
  \<^verbatim>\<open>atoi\<close> of its text. Without the element \<^verbatim>\<open>atoi\<close> is given \<^verbatim>\<open>NULL\<close>.
\<close>

record notify_xml =
  xml_fileTransferProgress :: "gint option option"

text \<open>
  \<^verbatim>\<open>process_notify\<close>: the comparison is between two \<^verbatim>\<open>int\<close>s, the right one the cast
  \<^verbatim>\<open>(int)(ft_private->file_size - 1)\<close>. The transfer in the result is \<open>None\<close> once it
  has been freed.
\<close>

definition process_notify ::
  "sipe_file_transfer_lync \<Rightarrow> notify_xml \<Rightarrow>
   error + (sipe_file_transfer_lync option \<times> event list)" where
  "process_notify ft_private xml =
     (case xml_fileTransferProgress xml of
        None \<Rightarrow> Inr (Some ft_private, [])
      | Some None \<Rightarrow> Inl NullPointer
      | Some (Some to) \<Rightarrow>
          if to = ucast (file_size ft_private - 1)
          then Inr (None,
                    send_ms_filetransfer_msg (DOWNLOAD_SUCCESS_RESPONSE (request_id ft_private)) @
                    ft_lync_deallocate ft_private)
          else Inr (Some ft_private, []))"

section \<open>Example data\<close>

text \<open>
  An audio stream whose backend reports four codecs, two of them with payload id 8, and
  a pair of host candidates; the media section and the message it serialises to.
\<close>


definition example_codecs :: "sipe_backend_codec list" where
  "example_codecs =
     [\<lparr> bcodec_id = 8, bcodec_name = ''PCMA'', bcodec_clock_rate = 8000,
        bcodec_type = SIPE_MEDIA_AUDIO, bcodec_optional_parameters = [] \<rparr>,
      \<lparr> bcodec_id = 0, bcodec_name = ''PCMU'', bcodec_clock_rate = 8000,
        bcodec_type = SIPE_MEDIA_AUDIO, bcodec_optional_parameters = [] \<rparr>,
      \<lparr> bcodec_id = 8, bcodec_name = ''G722'', bcodec_clock_rate = 16000,
        bcodec_type = SIPE_MEDIA_AUDIO, bcodec_optional_parameters = [] \<rparr>,
      \<lparr> bcodec_id = 101, bcodec_name = ''telephone-event'', bcodec_clock_rate = 8000,
        bcodec_type = SIPE_MEDIA_AUDIO,
        bcodec_optional_parameters = [(''events'', Some ''0-16'')] \<rparr>]"

definition example_host_candidate ::
  "SipeComponentType \<Rightarrow> guint \<Rightarrow> sipe_backend_candidate" where
  "example_host_candidate cmpnt p =
     \<lparr> bc_foundation = ''1'', bc_component = cmpnt, bc_type = SIPE_CANDIDATE_TYPE_HOST,
       bc_protocol = SIPE_NETWORK_PROTOCOL_UDP, bc_ip = Some ''10.0.0.1'', bc_port = p,
       bc_base_ip = Some ''10.0.0.1'', bc_base_port = p, bc_priority = 2130706431,
       bc_username = ''user'', bc_password = ''pass'' \<rparr>"

definition example_audio_stream :: sipe_media_stream_private where
  "example_audio_stream =
     \<lparr> stream_id = ''audio'',
       backend_private =
         \<lparr> local_codecs = example_codecs, active_local_candidates = [],
           local_candidates = [example_host_candidate SIPE_COMPONENT_RTP 5000,
                               example_host_candidate SIPE_COMPONENT_RTCP 5001],
           active_remote_candidates = [], held = False, initialized = True \<rparr>,
       encryption_key = Some [1, 2, 3], encryption_key_id = 1,
       remote_candidates_and_codecs_set = True, extra_sdp = [] \<rparr>"

definition example_call :: sipe_media_call_private where
  "example_call = empty_call\<lparr>streams := [example_audio_stream]\<rparr>"


definition example_audio_candidates :: "sdpcandidate list" where
  "example_audio_candidates =
     [\<lparr> foundation = ''1'', component = SIPE_COMPONENT_RTP,
        cand_type = SIPE_CANDIDATE_TYPE_HOST, protocol = SIPE_NETWORK_PROTOCOL_UDP,
        ip = ''10.0.0.1'', port = 5000, base_ip = Some ''10.0.0.1'', base_port = 5000,
        priority = 2130706431, username = ''user'', password = ''pass'' \<rparr>,
      \<lparr> foundation = ''1'', component = SIPE_COMPONENT_RTCP,
        cand_type = SIPE_CANDIDATE_TYPE_HOST, protocol = SIPE_NETWORK_PROTOCOL_UDP,
        ip = ''10.0.0.1'', port = 5001, base_ip = Some ''10.0.0.1'', base_port = 5001,
        priority = 2130706431, username = ''user'', password = ''pass'' \<rparr>]"

definition example_audio_media :: sdpmedia where
  "example_audio_media =
     \<lparr> media_name = ''audio'', media_ip = Some ''10.0.0.1'', media_port = 5000,
       media_attributes = [(''rtcp'', Some ''5001'')],
       media_candidates = example_audio_candidates,
       media_codecs =
         [\<lparr> codec_id = 0, codec_name = ''PCMU'', clock_rate = 8000,
            codec_type = SIPE_MEDIA_AUDIO, parameters = [] \<rparr>,
          \<lparr> codec_id = 8, codec_name = ''PCMA'', clock_rate = 8000,
            codec_type = SIPE_MEDIA_AUDIO, parameters = [] \<rparr>,
          \<lparr> codec_id = 101, codec_name = ''telephone-event'', clock_rate = 8000,
            codec_type = SIPE_MEDIA_AUDIO, parameters = [(''events'', Some ''0-16'')] \<rparr>],
       media_remote_candidates = [], media_encryption_active = True,
       media_encryption_key = Some [1, 2, 3], media_encryption_key_id = 1 \<rparr>"

definition example_msg :: sdpmsg where
  "example_msg =
     \<lparr> sdp_ip = Some ''10.0.0.1'', sdp_media = [example_audio_media],
       sdp_ice_version = SIPE_ICE_RFC_5245 \<rparr>"

text \<open>
  A file transfer of 2048 bytes with request id 7 on the call \<open>call-1\<close>, and one of
  \<open>2\<^sup>3\<^sup>1 + 2\<close> bytes.
\<close>

definition example_ft :: sipe_file_transfer_lync where
  "example_ft =
     \<lparr> ft_deallocate = True, ft_file_name = Some ''x.bin'',
       ft_id = Some ''{6244F934-2EB1-443F-8E2C-48BA64AF463D}'', file_size = 2048,
       request_id = 7, ft_call_private = Some ''call-1'', was_cancelled = False,
       write_source_id = 0 \<rparr>"

definition example_big_ft :: sipe_file_transfer_lync where
  "example_big_ft = example_ft\<lparr>file_size := 2147483650\<rparr>"

text \<open>Settings that hold relay credentials, and a response with a Call-ID header.\<close>

definition example_relay :: sipe_media_relay where
  "example_relay = \<lparr> hostname = Some ''relay.example.com'', udp_port = 3478, tcp_port = 443,
                      dns_query = True \<rparr>"

definition example_settings_with_relay :: media_settings where
  "example_settings_with_relay =
     example_settings\<lparr> media_relay_username := Some ''user'',
                        media_relay_password := Some ''secret'',
                        media_relays := [example_relay] \<rparr>"

definition example_response :: "int \<Rightarrow> string \<Rightarrow> (string \<times> string) list \<Rightarrow> sipmsg" where
  "example_response code str hdrs =
     \<lparr> msg_response = code, msg_responsestr = str,
       msg_headers = (''Call-ID'', ''call-1'') # hdrs, msg_body = [],
       msg_parsed_warning = 0, msg_ms_diagnostics_reason = None \<rparr>"

definition example_xml_parse :: "string \<Rightarrow> credentials_response_xml" where
  "example_xml_parse body =
     \<lparr> xml_reasonPhrase = None, xml_username = None, xml_password = None,
       xml_mediaRelayList = [] \<rparr>"

text \<open>
  A backend that accepts every codec list, creates every stream, ends streams at once and
  leaves the end of the media of a call to a later event.
\<close>

definition example_media_backend :: media_backend where
  "example_media_backend =
     \<lparr> accepts_remote_codecs = (\<lambda>sid codecs. True), ends_stream_at_once = True,
       ends_media_at_once = False, add_stream = (\<lambda>request. Some example_backend_stream),
       network_ip_address = ''10.0.0.1'' \<rparr>"

text \<open>
  A registry with one outgoing call, \<open>call-1\<close>, whose dialog has sent its first INVITE,
  and a transport that advances the cseq of the dialog it sends on.
\<close>

definition example_dialog :: sip_dialog where
  "example_dialog =
     \<lparr> dialog_callid = ''call-1'', dialog_with = ''sip:bob@example.com'', cseq = 1,
       outgoing_invite = Some \<lparr>trans_cseq = 1\<rparr> \<rparr>"

definition example_session :: sip_session where
  "example_session = \<lparr> session_with = ''sip:bob@example.com'', dialogs = [example_dialog] \<rparr>"

definition example_outgoing_call :: "SipeIceVersion \<Rightarrow> sipe_media_call_private" where
  "example_outgoing_call ice =
     example_call\<lparr> session := Some example_session, ice_version := ice \<rparr>"

definition example_core :: "SipeIceVersion \<Rightarrow> sipe_core_private" where
  "example_core ice =
     \<lparr> min_media_port = 1000, max_media_port = 1999,
       min_audio_port = 2000, max_audio_port = 2999,
       min_video_port = 3000, max_video_port = 3999,
       min_filetransfer_port = 4000, max_filetransfer_port = 4999,
       min_appsharing_port = 5000, max_appsharing_port = 5999,
       server_av_encryption_policy = SIPE_ENCRYPTION_POLICY_OPTIONAL,
       backend_encryption_policy = SIPE_ENCRYPTION_POLICY_OBEY_SERVER,
       media_relay_username = None, media_relay_password = None, media_relays = [],
       media_calls = [''call-1'' \<mapsto> example_outgoing_call ice],
       contact = ''<sip:alice@example.com>'', test_call_bot_uri = None, ocs2007 = True \<rparr>"

definition example_transport_ack :: "sip_dialog \<Rightarrow> sip_dialog" where
  "example_transport_ack dialog = dialog\<lparr>cseq := cseq dialog + 1\<rparr>"

text \<open>
  Two UDP candidates of one foundation with the same port on two IPs, and a TCP-passive
  candidate of another foundation.
\<close>

definition example_udp_pair_two_ips :: "sipe_backend_candidate list" where
  "example_udp_pair_two_ips =
     [example_host_candidate SIPE_COMPONENT_RTP 5000,
      (example_host_candidate SIPE_COMPONENT_RTCP 5000)
        \<lparr> bc_ip := Some ''192.168.1.7'', bc_base_ip := Some ''192.168.1.7'' \<rparr>]"

definition example_tcp_candidate :: sipe_backend_candidate where
  "example_tcp_candidate =
     (example_host_candidate SIPE_COMPONENT_RTP 5002)
       \<lparr> bc_foundation := ''2'', bc_protocol := SIPE_NETWORK_PROTOCOL_TCP_PASSIVE \<rparr>"

section \<open>The candidates that the workaround for old backends discards\<close>

text \<open>
  The UDP candidates of a foundation, in list order. The first of them is the one the table
  \<^verbatim>\<open>foundation_to_candidate\<close> holds, and every later one is tested against it:
  \<open>matching_later\<close> is the part of that list from the first later candidate that passes
  the test of \<^verbatim>\<open>remove_wrong_farstream_0_1_tcp_candidates\<close>.
\<close>

definition udp_with :: "string \<Rightarrow> sipe_backend_candidate list \<Rightarrow> sipe_backend_candidate list" where
  "udp_with f cs =
     filter (\<lambda>c. bc_protocol c = SIPE_NETWORK_PROTOCOL_UDP \<and> bc_foundation c = f) cs"

definition matching_later :: "sipe_backend_candidate list \<Rightarrow> sipe_backend_candidate list" where
  "matching_later us =
     (case us of
        [] \<Rightarrow> []
      | c2 # later \<Rightarrow> dropWhile (\<lambda>c1. \<not> mistagged_tcp_pair c1 c2) later)"

text \<open>
  The candidates to discard: the first UDP candidate of a foundation and the first later one
  that passes the test against it. When more UDP candidates of the foundation follow that
  pair, the loop looks up the entry of the first candidate again, after
  \<^verbatim>\<open>sipe_backend_candidate_free\<close>.
\<close>

definition discarded :: "sipe_backend_candidate list \<Rightarrow> sipe_backend_candidate \<Rightarrow> bool" where
  "discarded cs c =
     (bc_protocol c = SIPE_NETWORK_PROTOCOL_UDP \<and>
      (case matching_later (udp_with (bc_foundation c) cs) of
         [] \<Rightarrow> False
       | c1 # _ \<Rightarrow> c = c1 \<or> c = hd (udp_with (bc_foundation c) cs)))"

definition reads_freed_candidate :: "sipe_backend_candidate list \<Rightarrow> bool" where
  "reads_freed_candidate cs =
     (\<exists>c\<in>set cs. bc_protocol c = SIPE_NETWORK_PROTOCOL_UDP \<and>
                 1 < length (matching_later (udp_with (bc_foundation c) cs)))"

text \<open>
  A host candidate followed by a server-reflexive candidate of the same foundation and base
  port; three host candidates of which the later two share a port; four candidates of which
  the first and the last share a port; and three of which the first two do.
\<close>

definition example_srflx_same_base_port :: "sipe_backend_candidate list" where
  "example_srflx_same_base_port =
     [example_host_candidate SIPE_COMPONENT_RTP 5000,
      (example_host_candidate SIPE_COMPONENT_RTP 6000)
        \<lparr> bc_type := SIPE_CANDIDATE_TYPE_SRFLX, bc_ip := Some ''203.0.113.9'',
          bc_base_port := 5000 \<rparr>]"

definition example_later_pair_same_port :: "sipe_backend_candidate list" where
  "example_later_pair_same_port =
     [example_host_candidate SIPE_COMPONENT_RTP 5000,
      example_host_candidate SIPE_COMPONENT_RTP 5002,
      example_host_candidate SIPE_COMPONENT_RTCP 5002]"

definition example_first_and_third :: "sipe_backend_candidate list" where
  "example_first_and_third =
     [example_host_candidate SIPE_COMPONENT_RTP 5000,
      example_host_candidate SIPE_COMPONENT_RTCP 5002,
      example_tcp_candidate,
      example_host_candidate SIPE_COMPONENT_RTCP 5000]"

definition example_candidate_after_pair :: "sipe_backend_candidate list" where
  "example_candidate_after_pair =
     [example_host_candidate SIPE_COMPONENT_RTP 5000,
      example_host_candidate SIPE_COMPONENT_RTCP 5000,
      example_host_candidate SIPE_COMPONENT_RTCP 5002]"

section \<open>The ports that the normalisation fills in\<close>







section \<open>Failed media sections\<close>




text \<open>
  A remote message with an audio and a video section. A call with an audio and a video
  stream, the latter without remote codecs, and a backend that refuses the codecs of every
  video section; the call after that message, which has lost the video stream and keeps the
  video section.
\<close>

definition example_remote_section :: "string \<Rightarrow> guint \<Rightarrow> sdpmedia" where
  "example_remote_section name p =
     \<lparr> media_name = name, media_ip = Some ''198.51.100.2'', media_port = p,
       media_attributes = [], media_candidates = [],
       media_codecs = [\<lparr> codec_id = 0, codec_name = ''PCMU'', clock_rate = 8000,
                         codec_type = SIPE_MEDIA_AUDIO, parameters = [] \<rparr>],
       media_remote_candidates = [], media_encryption_active = False,
       media_encryption_key = None, media_encryption_key_id = 0 \<rparr>"

definition example_remote_msg :: sdpmsg where
  "example_remote_msg =
     \<lparr> sdp_ip = Some ''198.51.100.2'',
       sdp_media = [example_remote_section ''audio'' 6000, example_remote_section ''video'' 6002],
       sdp_ice_version = SIPE_ICE_RFC_5245 \<rparr>"










section \<open>The codecs of the sections of a serialised message\<close>

text \<open>
  What is to hold of the media section that a stream serialises to: it has the name of the
  stream, no two of its codecs have the same payload id, the codec of an id is the first
  codec of that id that the backend reports for the stream, with its name, clock rate and
  parameters, and the codecs are in increasing order of payload id when the backend reports
  no negative id.
\<close>

definition codecs_unique_first_kept_sorted ::
  "sipe_media_stream_private \<Rightarrow> sdpmedia \<Rightarrow> bool" where
  "codecs_unique_first_kept_sorted stream_private media =
     (media_name media = stream_id stream_private \<and>
      distinct (map codec_id (media_codecs media)) \<and>
      (\<forall>k. map_option (\<lambda>c. (codec_name c, clock_rate c, parameters c))
              (find (\<lambda>c. codec_id c = k) (media_codecs media)) =
            map_option (\<lambda>d. (bcodec_name d, bcodec_clock_rate d, bcodec_optional_parameters d))
              (find (\<lambda>d. bcodec_id d = k) (local_codecs (backend_private stream_private)))) \<and>
      ((\<forall>d\<in>set (local_codecs (backend_private stream_private)). 0 \<le> sint (bcodec_id d)) \<longrightarrow>
       sorted_wrt (<) (map (\<lambda>c. sint (codec_id c)) (media_codecs media))))"

text \<open>
  A remote message whose video section has two codecs of payload id 96.
\<close>

definition example_video_section_96_twice :: sdpmedia where
  "example_video_section_96_twice =
     (example_remote_section ''video'' 6002)
       \<lparr> media_codecs :=
           [\<lparr> codec_id = 96, codec_name = ''H264'', clock_rate = 90000,
              codec_type = SIPE_MEDIA_VIDEO, parameters = [] \<rparr>,
            \<lparr> codec_id = 96, codec_name = ''x-rtvc1'', clock_rate = 90000,
              codec_type = SIPE_MEDIA_VIDEO, parameters = [] \<rparr>] \<rparr>"

definition example_remote_msg_96_twice :: sdpmsg where
  "example_remote_msg_96_twice =
     example_remote_msg
       \<lparr> sdp_media := [example_remote_section ''audio'' 6000, example_video_section_96_twice] \<rparr>"

section \<open>The retry of a refused call\<close>





section \<open>Verified properties\<close>

subsection \<open>The example data, evaluated\<close>

lemma example_process_codecs:
  "process_codecs SIPE_MEDIA_AUDIO example_codecs = media_codecs example_audio_media"
  by (simp add: process_codecs_def codec_step_def example_codecs_def example_audio_media_def
      sipe_utils_slist_insert_unique_sorted_def sdpcodec_compare_def backend_codec_to_sdpcodec_def)

lemma example_local_candidates:
  "stream_local_candidates (backend_private example_audio_stream) =
     Inr [example_host_candidate SIPE_COMPONENT_RTP 5000,
          example_host_candidate SIPE_COMPONENT_RTCP 5001]"
  by (simp add: stream_local_candidates_def example_audio_stream_def
      remove_wrong_farstream_0_1_tcp_candidates_def example_host_candidate_def
      mistagged_tcp_pair_def)

lemma example_sdpcandidates:
  "backend_candidates_to_sdpcandidate
     [example_host_candidate SIPE_COMPONENT_RTP 5000,
      example_host_candidate SIPE_COMPONENT_RTCP 5001] = example_audio_candidates"
  by (simp add: backend_candidates_to_sdpcandidate_def example_host_candidate_def
      candidate_sort_cb_def sipe_strcompare_def example_audio_candidates_def)

lemma example_fill:
  "fill_zero_tcp_act_ports_from_tcp_pass example_audio_candidates = Inr example_audio_candidates"
  by (simp add: fill_zero_tcp_act_ports_from_tcp_pass_def example_audio_candidates_def)

lemma example_ip_and_ports:
  "get_stream_ip_and_ports example_audio_candidates SIPE_CANDIDATE_TYPE_HOST =
     (Some ''10.0.0.1'', 5000, 5001)"
  by (simp add: get_stream_ip_and_ports_def example_audio_candidates_def)

lemma backend_candidates_to_sdpcandidate_Nil [simp]:
  "backend_candidates_to_sdpcandidate [] = []"
  by (simp add: backend_candidates_to_sdpcandidate_def)

lemma decimal_5001: "decimal 5001 = ''5001''"
  by (simp add: decimal.simps digit_def)

lemma example_media_stream_to_sdpmedia:
  "media_stream_to_sdpmedia example_settings example_call example_audio_stream =
     Inr (Some example_audio_media)"
proof -
  have l: "local_codecs (backend_private example_audio_stream) = example_codecs"
    by (simp add: example_audio_stream_def)
  have u: "unat (5001 :: 32 word) = 5001" by simp
  show ?thesis
    unfolding media_stream_to_sdpmedia_def Let_def
    by (simp add: example_local_candidates example_sdpcandidates example_fill
        example_ip_and_ports l example_process_codecs media_type_of_name_def
        get_encryption_policy_def example_settings_def decimal_5001 u
        sipe_utils_nameval_add_def)
       (simp add: example_audio_stream_def example_audio_media_def example_call_def
        empty_call_def)
qed

subsection \<open>Ports asked of the backend\<close>


text \<open>
  Claim C1: every stream added by \<^verbatim>\<open>sipe_media_stream_add\<close> asks the backend for the port
  range of its media type, minimum and maximum from the same pair. For a video stream
  the code takes the minimum of the video range and the maximum of the audio range:
  with the example settings the backend is asked for ports 3000 to 2999.
\<close>

theorem C1_video_stream_gets_audio_max_port:
  "sipe_media_stream_add (\<lambda>r. Some example_backend_stream) None example_settings empty_call
     ''video'' SIPE_MEDIA_VIDEO SIPE_ICE_RFC_5245 True
   = (Some \<lparr> stream_id = ''video'', backend_private = example_backend_stream,
             encryption_key = None, encryption_key_id = 0,
             remote_candidates_and_codecs_set = False, extra_sdp = [] \<rparr>,
      empty_call\<lparr>streams := [\<lparr> stream_id = ''video'', backend_private = example_backend_stream,
             encryption_key = None, encryption_key_id = 0,
             remote_candidates_and_codecs_set = False, extra_sdp = [] \<rparr>]\<rparr>,
      [BackendMediaAddStream
         \<lparr> req_id = ''video'', req_participant = ''sip:bob@example.com'',
           req_type = SIPE_MEDIA_VIDEO, req_ice_version = SIPE_ICE_RFC_5245,
           req_initiator = True, req_relays = [], req_relay_username = None,
           req_relay_password = None, req_min_port = 3000, req_max_port = 2999 \<rparr>])"
  by (simp add: sipe_media_stream_add_def stream_port_range_def example_settings_def
      empty_call_def Let_def)

subsection \<open>Codecs of a serialised media section\<close>

lemma sint_eq_zero: "sint (w :: 32 word) = 0 \<longleftrightarrow> w = 0"
  by (simp add: signed_eq_0_iff)

lemma sdpcodec_compare_zero: "sdpcodec_compare a b = 0 \<longleftrightarrow> codec_id a = codec_id b"
  by (simp add: sdpcodec_compare_def sint_eq_zero)

lemma set_g_slist_insert_sorted: "set (g_slist_insert_sorted f x xs) = insert x (set xs)"
  by (induction xs) auto

lemma find_compare_None:
  "find (\<lambda>e. sdpcodec_compare e x = 0) xs = None \<longleftrightarrow> codec_id x \<notin> codec_id ` set xs"
  by (auto simp: find_None_iff sdpcodec_compare_zero image_iff)

lemma distinct_insert_sorted:
  "distinct (map codec_id xs) \<Longrightarrow> codec_id x \<notin> codec_id ` set xs \<Longrightarrow>
   distinct (map codec_id (g_slist_insert_sorted f x xs))"
  by (induction xs) (auto simp: set_g_slist_insert_sorted)

lemma sint_diff_nonneg:
  fixes a b :: "32 word"
  assumes "0 \<le> sint a" "0 \<le> sint b"
  shows "sint (a - b) = sint a - sint b"
proof -
  have "sint a < 2 ^ 31" "sint b < 2 ^ 31"
    using sint_lt [of a] sint_lt [of b] by simp_all
  with assms have "- (2 ^ 31) \<le> sint a - sint b" "sint a - sint b < 2 ^ 31"
    by simp_all
  then show ?thesis
    by (simp add: sint_word_diff signed_take_bit_int_eq_self)
qed

lemma find_insert_sorted:
  "codec_id x \<notin> codec_id ` set xs \<Longrightarrow>
   find (\<lambda>c. codec_id c = k) (g_slist_insert_sorted f x xs) =
     (if codec_id x = k then Some x else find (\<lambda>c. codec_id c = k) xs)"
  by (induction xs) auto

lemma sorted_insert_sorted:
  assumes "sorted_wrt (<) (map (\<lambda>c. sint (codec_id c)) xs)"
    and "\<forall>c\<in>set xs. 0 \<le> sint (codec_id c)" and "0 \<le> sint (codec_id x)"
    and "codec_id x \<notin> codec_id ` set xs"
  shows "sorted_wrt (<) (map (\<lambda>c. sint (codec_id c)) (g_slist_insert_sorted sdpcodec_compare x xs))"
  using assms
proof (induction xs)
  case Nil
  then show ?case by simp
next
  case (Cons y ys)
  have ne: "codec_id x \<noteq> codec_id y" using Cons.prems(4) by auto
  have d: "sdpcodec_compare x y = sint (codec_id x) - sint (codec_id y)"
    using Cons.prems(2,3) by (simp add: sdpcodec_compare_def sint_diff_nonneg)
  have ne': "sint (codec_id x) \<noteq> sint (codec_id y)"
    using ne by (auto dest: signed_word_eqI)
  show ?case
  proof (cases "sdpcodec_compare x y > 0")
    case True
    then have "sint (codec_id y) < sint (codec_id x)" using d by simp
    moreover have "sorted_wrt (<) (map (\<lambda>c. sint (codec_id c)) (g_slist_insert_sorted sdpcodec_compare x ys))"
      using Cons by auto
    ultimately show ?thesis
      using True Cons.prems(1) by (auto simp: set_g_slist_insert_sorted)
  next
    case False
    then have "sint (codec_id x) < sint (codec_id y)" using d ne' by simp
    then show ?thesis
      using False Cons.prems(1) by (auto intro: less_trans)
  qed
qed


lemma insert_unique_distinct:
  "distinct (map codec_id acc) \<Longrightarrow>
   distinct (map codec_id (sipe_utils_slist_insert_unique_sorted acc x sdpcodec_compare))"
  by (simp add: sipe_utils_slist_insert_unique_sorted_def find_compare_None distinct_insert_sorted)

lemma insert_unique_find:
  "distinct (map codec_id acc) \<Longrightarrow>
   find (\<lambda>c. codec_id c = k) (sipe_utils_slist_insert_unique_sorted acc x sdpcodec_compare) =
     (case find (\<lambda>c. codec_id c = k) acc of
        Some c \<Rightarrow> Some c
      | None \<Rightarrow> if codec_id x = k then Some x else None)"
proof (cases "codec_id x \<in> codec_id ` set acc")
  case True
  then obtain y where y: "y \<in> set acc" "codec_id y = codec_id x" by auto
  have "find (\<lambda>c. codec_id c = k) acc \<noteq> None" if "codec_id x = k"
    using y that by (auto simp: find_None_iff)
  with True show ?thesis
    by (auto simp: sipe_utils_slist_insert_unique_sorted_def find_compare_None
        split: option.splits)
next
  case False
  then have ins: "sipe_utils_slist_insert_unique_sorted acc x sdpcodec_compare =
      g_slist_insert_sorted sdpcodec_compare x acc"
    by (simp add: sipe_utils_slist_insert_unique_sorted_def find_compare_None)
  have n: "find (\<lambda>c. codec_id c = k) acc = None" if "codec_id x = k"
    using False that by (auto simp: find_None_iff image_iff)
  show ?thesis
    unfolding ins find_insert_sorted [OF False] using n by (auto split: option.splits)
qed

lemma insert_unique_nonneg:
  "\<forall>c\<in>set acc. 0 \<le> sint (codec_id c) \<Longrightarrow> 0 \<le> sint (codec_id x) \<Longrightarrow>
   \<forall>c\<in>set (sipe_utils_slist_insert_unique_sorted acc x sdpcodec_compare). 0 \<le> sint (codec_id c)"
  by (auto simp: sipe_utils_slist_insert_unique_sorted_def set_g_slist_insert_sorted)

lemma insert_unique_sorted:
  "sorted_wrt (<) (map (\<lambda>c. sint (codec_id c)) acc) \<Longrightarrow>
   \<forall>c\<in>set acc. 0 \<le> sint (codec_id c) \<Longrightarrow> 0 \<le> sint (codec_id x) \<Longrightarrow>
   sorted_wrt (<) (map (\<lambda>c. sint (codec_id c))
     (sipe_utils_slist_insert_unique_sorted acc x sdpcodec_compare))"
  by (simp add: sipe_utils_slist_insert_unique_sorted_def find_compare_None sorted_insert_sorted)

lemma codec_loop_distinct:
  "distinct (map codec_id acc) \<Longrightarrow> distinct (map codec_id (foldl (codec_step type) acc cs))"
  by (induction cs arbitrary: acc) (simp_all add: codec_step_def insert_unique_distinct)

lemma codec_loop_find:
  "distinct (map codec_id acc) \<Longrightarrow>
   find (\<lambda>c. codec_id c = k) (foldl (codec_step type) acc cs) =
     (case find (\<lambda>c. codec_id c = k) acc of
        Some c \<Rightarrow> Some c
      | None \<Rightarrow> map_option (backend_codec_to_sdpcodec type) (find (\<lambda>d. bcodec_id d = k) cs))"
proof (induction cs arbitrary: acc)
  case Nil
  then show ?case by (simp split: option.splits)
next
  case (Cons c cs)
  have d: "distinct (map codec_id (codec_step type acc c))"
    using Cons.prems by (simp add: codec_step_def insert_unique_distinct)
  have i: "codec_id (backend_codec_to_sdpcodec type c) = bcodec_id c"
    by (simp add: backend_codec_to_sdpcodec_def)
  show ?case
    using Cons.IH [OF d] Cons.prems
    by (simp add: codec_step_def insert_unique_find i split: option.splits)
qed

lemma codec_loop_sorted:
  "sorted_wrt (<) (map (\<lambda>c. sint (codec_id c)) acc) \<Longrightarrow>
   \<forall>c\<in>set acc. 0 \<le> sint (codec_id c) \<Longrightarrow>
   \<forall>d\<in>set cs. 0 \<le> sint (bcodec_id d) \<Longrightarrow>
   sorted_wrt (<) (map (\<lambda>c. sint (codec_id c)) (foldl (codec_step type) acc cs))"
proof (induction cs arbitrary: acc)
  case Nil
  then show ?case by simp
next
  case (Cons c cs)
  have x: "0 \<le> sint (codec_id (backend_codec_to_sdpcodec type c))"
    using Cons.prems(3) by (simp add: backend_codec_to_sdpcodec_def)
  have s: "sorted_wrt (<) (map (\<lambda>c. sint (codec_id c)) (codec_step type acc c))"
    using Cons.prems(1,2) x by (simp add: codec_step_def insert_unique_sorted)
  have n: "\<forall>c\<in>set (codec_step type acc c). 0 \<le> sint (codec_id c)"
    unfolding codec_step_def using Cons.prems(2) x by (rule insert_unique_nonneg)
  show ?case
    using Cons.IH [OF s n] Cons.prems(3) by simp
qed

lemma process_codecs_fold: "process_codecs type cs = foldl (codec_step type) [] cs"
  by (simp add: process_codecs_def)

lemma media_stream_to_sdpmedia_codecs:
  assumes "media_stream_to_sdpmedia sipe_private call_private stream_private = Inr (Some media)"
  shows "\<exists>type. media_codecs media =
           process_codecs type (local_codecs (backend_private stream_private))"
  using assms
  by (auto simp: media_stream_to_sdpmedia_def Let_def case_prod_beta
      split: option.splits sum.splits)

lemma stream_section_codecs:
  assumes "media_stream_to_sdpmedia sipe_private call_private stream_private = Inr (Some media)"
  shows "distinct (map codec_id (media_codecs media)) \<and>
         (\<forall>k. map_option (\<lambda>c. (codec_name c, clock_rate c, parameters c))
                 (find (\<lambda>c. codec_id c = k) (media_codecs media)) =
               map_option (\<lambda>d. (bcodec_name d, bcodec_clock_rate d, bcodec_optional_parameters d))
                 (find (\<lambda>d. bcodec_id d = k) (local_codecs (backend_private stream_private)))) \<and>
         ((\<forall>d\<in>set (local_codecs (backend_private stream_private)). 0 \<le> sint (bcodec_id d)) \<longrightarrow>
          sorted_wrt (<) (map (\<lambda>c. sint (codec_id c)) (media_codecs media)))"
proof -
  obtain type where m: "media_codecs media =
      foldl (codec_step type) [] (local_codecs (backend_private stream_private))"
    using media_stream_to_sdpmedia_codecs [OF assms] by (auto simp: process_codecs_fold)
  have 1: "distinct (map codec_id (media_codecs media))"
    unfolding m by (rule codec_loop_distinct) simp
  have 2: "map_option (\<lambda>c. (codec_name c, clock_rate c, parameters c))
             (find (\<lambda>c. codec_id c = k) (media_codecs media)) =
           map_option (\<lambda>d. (bcodec_name d, bcodec_clock_rate d, bcodec_optional_parameters d))
             (find (\<lambda>d. bcodec_id d = k) (local_codecs (backend_private stream_private)))" for k
    unfolding m
    by (simp add: codec_loop_find option.map_comp comp_def backend_codec_to_sdpcodec_def)
  have 3: "sorted_wrt (<) (map (\<lambda>c. sint (codec_id c)) (media_codecs media))"
    if "\<forall>d\<in>set (local_codecs (backend_private stream_private)). 0 \<le> sint (bcodec_id d)"
    unfolding m using that by (intro codec_loop_sorted) simp_all
  from 1 2 3 show ?thesis by blast
qed

subsection \<open>The encryption-active flag\<close>

lemma media_stream_to_sdpmedia_Some:
  assumes "media_stream_to_sdpmedia sipe_private call_private stream_private = Inr (Some media)"
  shows "media_name media = stream_id stream_private"
    and "media_encryption_active media \<longleftrightarrow>
           encryption_key stream_private \<noteq> None \<and> encryption_compatible call_private \<and>
           remote_candidates_and_codecs_set stream_private \<and>
           get_encryption_policy sipe_private \<noteq> SIPE_ENCRYPTION_POLICY_REJECTED"
    and "media_type_of_name (stream_id stream_private) \<noteq> None"
  using assms
  by (auto simp: media_stream_to_sdpmedia_def Let_def case_prod_beta
      split: option.splits sum.splits)

lemma media_stream_to_sdpmedia_None:
  assumes "media_stream_to_sdpmedia sipe_private call_private stream_private = Inr None"
  shows "media_type_of_name (stream_id stream_private) = None"
  using assms
  by (auto simp: media_stream_to_sdpmedia_def Let_def case_prod_beta
      split: option.splits sum.splits)

lemma streams_to_sdpmedia_flags:
  "streams_to_sdpmedia sipe_private call_private ss = Inr medias \<Longrightarrow>
   map (\<lambda>m. (media_name m, media_encryption_active m)) medias =
   map (\<lambda>s. (stream_id s,
               encryption_key s \<noteq> None \<and> encryption_compatible call_private \<and>
               remote_candidates_and_codecs_set s \<and>
               get_encryption_policy sipe_private \<noteq> SIPE_ENCRYPTION_POLICY_REJECTED))
     (filter (\<lambda>s. media_type_of_name (stream_id s) \<noteq> None) ss)"
proof (induction ss arbitrary: medias)
  case Nil
  then show ?case by simp
next
  case (Cons s ss)
  from Cons.prems obtain media rest where
    m: "media_stream_to_sdpmedia sipe_private call_private s = Inr media" and
    r: "streams_to_sdpmedia sipe_private call_private ss = Inr rest" and
    e: "medias = (case media of None \<Rightarrow> [] | Some m \<Rightarrow> [m]) @ rest"
    by (auto split: sum.splits)
  show ?case
  proof (cases media)
    case None
    with m have "media_type_of_name (stream_id s) = None"
      by (simp add: media_stream_to_sdpmedia_None)
    with None e Cons.IH [OF r] show ?thesis by simp
  next
    case (Some x)
    with m have x: "media_stream_to_sdpmedia sipe_private call_private s = Inr (Some x)"
      by simp
    show ?thesis
      using Some e Cons.IH [OF r] media_stream_to_sdpmedia_Some [OF x] by simp
  qed
qed

lemma example_sipe_media_to_sdpmsg:
  "sipe_media_to_sdpmsg example_settings example_call = Inr (example_msg, example_call)"
proof -
  have s: "streams example_call = [example_audio_stream]"
    by (simp add: example_call_def empty_call_def)
  have f: "failed_media example_call = []" "ice_version example_call = SIPE_ICE_RFC_5245"
    "example_call\<lparr>failed_media := []\<rparr> = example_call"
    by (simp_all add: example_call_def empty_call_def)
  have i: "media_ip example_audio_media = Some ''10.0.0.1''"
    by (simp add: example_audio_media_def)
  show ?thesis
    by (simp add: sipe_media_to_sdpmsg_def s f i example_media_stream_to_sdpmedia example_msg_def)
qed

text \<open>
  Claim C7: in every serialised SDP, the section of a stream has the encryption-active
  flag exactly when the stream has a local SRTP key, the call's encryption-compatible
  flag is set, the stream's remote-set flag is set, and the effective policy is not
  \<open>rejected\<close>. The sections of the streams come first in the message, one for each
  stream whose id names a known media, in the order of the streams.
\<close>

theorem C7_encryption_active_iff:
  assumes "sipe_media_to_sdpmsg sipe_private call_private = Inr (msg, call')"
  shows "map (\<lambda>m. (media_name m, media_encryption_active m))
           (take (length (filter (\<lambda>s. media_type_of_name (stream_id s) \<noteq> None)
                            (streams call_private)))
              (sdp_media msg)) =
         map (\<lambda>s. (stream_id s,
                     encryption_key s \<noteq> None \<and> encryption_compatible call_private \<and>
                     remote_candidates_and_codecs_set s \<and>
                     get_encryption_policy sipe_private \<noteq> SIPE_ENCRYPTION_POLICY_REJECTED))
           (filter (\<lambda>s. media_type_of_name (stream_id s) \<noteq> None) (streams call_private))"
proof -
  from assms obtain medias where
    m: "streams_to_sdpmedia sipe_private call_private (streams call_private) = Inr medias" and
    s: "sdp_media msg = medias @ failed_media call_private"
    by (auto simp: sipe_media_to_sdpmsg_def split: sum.splits)
  have l: "length (filter (\<lambda>s. media_type_of_name (stream_id s) \<noteq> None) (streams call_private))
      = length medias"
    using streams_to_sdpmedia_flags [OF m, THEN arg_cong, of length] by simp
  have t: "take (length (filter (\<lambda>s. media_type_of_name (stream_id s) \<noteq> None)
                          (streams call_private))) (sdp_media msg) = medias"
    unfolding l s by simp
  show ?thesis
    unfolding t by (rule streams_to_sdpmedia_flags [OF m])
qed

theorem C7_encryption_active_iff_witness:
  "sipe_media_to_sdpmsg example_settings example_call = Inr (example_msg, example_call) \<and>
   map (\<lambda>m. (media_name m, media_encryption_active m)) (sdp_media example_msg) =
     [(''audio'', True)]"
proof -
  have t: "media_type_of_name (stream_id example_audio_stream) \<noteq> None"
    by (simp add: media_type_of_name_def example_audio_stream_def)
  have s: "streams example_call = [example_audio_stream]"
    by (simp add: example_call_def empty_call_def)
  show ?thesis
    using C7_encryption_active_iff [OF example_sipe_media_to_sdpmsg] t
    by (simp add: example_sipe_media_to_sdpmsg s example_msg_def example_audio_media_def)
qed

subsection \<open>The end of a Lync file transfer\<close>

lemma small_int_bits:
  fixes m :: nat
  assumes "m < 2 ^ 31"
  shows "take_bit 32 (int m) = int m" and "signed_take_bit 31 (int m) = int m"
proof -
  have "int m < 2 ^ 31" using assms by (metis of_nat_less_iff of_nat_numeral of_nat_power)
  then show "take_bit 32 (int m) = int m" "signed_take_bit 31 (int m) = int m"
    by (simp_all add: take_bit_int_eq_self signed_take_bit_int_eq_self)
qed

lemma size_minus_one:
  fixes fs :: "64 word"
  assumes "0 < unat fs" "unat fs \<le> 2 ^ 31"
  shows "sint (ucast (fs - 1) :: 32 word) = int (unat fs) - 1"
proof -
  define m where "m = unat fs - 1"
  have m: "m < 2 ^ 31" "int m = int (unat fs) - 1"
    using assms by (simp_all add: m_def)
  from assms(1) have nz: "fs \<noteq> 0" by auto
  have "uint (fs - 1) = int m"
    unfolding m_def uint_nat by (simp only: unat_minus_one [OF nz])
  then have v: "uint (ucast (fs - 1) :: 32 word) = int m"
    using small_int_bits(1) [OF m(1)] by (simp add: unsigned_ucast_eq)
  have "sint (ucast (fs - 1) :: 32 word) = signed_take_bit 31 (int m)"
    unfolding sint_uint v by simp
  also have "\<dots> = int m" by (rule small_int_bits(2) [OF m(1)])
  also have "\<dots> = int (unat fs) - 1" by (rule m(2))
  finally show ?thesis .
qed

lemma to_eq_iff:
  fixes fs :: "64 word" and to :: "32 word"
  assumes "0 < unat fs" "unat fs \<le> 2 ^ 31"
  shows "to = ucast (fs - 1) \<longleftrightarrow> sint to = int (unat fs) - 1"
  using size_minus_one [OF assms] by (metis signed_word_eqI)

text \<open>
  Claim C8, as stated: the receiver's notify carries \<open>size - 1\<close>, the sender answers a
  notify whose \<open>to\<close> value is \<open>size - 1\<close> with \<open>success\<close> and hangs up, and no other
  notify does that. The sender compares \<open>to\<close> with \<^verbatim>\<open>(int)(file_size - 1)\<close>: for a file of
  \<open>2\<^sup>3\<^sup>1 + 2\<close> bytes a notify with \<open>to = -2147483647\<close> gets the success response and the
  hang-up, although \<open>size - 1\<close> is 2147483649.
\<close>

theorem C8_truncated_size_counterexample:
  "process_notify example_big_ft \<lparr>xml_fileTransferProgress = Some (Some (- 2147483647))\<rparr> =
     Inr (None, [SipTransportInfo (DOWNLOAD_SUCCESS_RESPONSE 7), BackendMediaHangup ''call-1'' True]) \<and>
   sint (- 2147483647 :: gint) \<noteq> int (unat (file_size example_big_ft)) - 1"
  by (simp add: process_notify_def example_big_ft_def example_ft_def
      send_ms_filetransfer_msg_def ft_lync_deallocate_def sipe_file_transfer_lync_free_def)

text \<open>
  Claim C8, amended: for a file of 1 to \<open>2\<^sup>3\<^sup>1\<close> bytes, the receiver's notify carries
  \<open>size - 1\<close>; the sender answers a notify whose \<open>to\<close> value is \<open>size - 1\<close> with the
  success response for its request id, hangs up the call it has, and frees the transfer;
  a notify with any other \<open>to\<close> value triggers nothing.
\<close>

theorem C8_notify_of_last_byte_completes:
  assumes "0 < unat (file_size ft_private)" and "unat (file_size ft_private) \<le> 2 ^ 31"
  shows "ft_lync_incoming_end rand ft_private =
           (True, ft_private\<lparr>ft_deallocate := False\<rparr>,
            [SipTransportInfo (FILETRANSFER_PROGRESS rand (request_id ft_private)
               (ucast (file_size ft_private - 1)))]) \<and>
         sint (ucast (file_size ft_private - 1) :: gint) = int (unat (file_size ft_private)) - 1 \<and>
         process_notify ft_private \<lparr>xml_fileTransferProgress = Some (Some to)\<rparr> =
           (if sint to = int (unat (file_size ft_private)) - 1
            then Inr (None,
                      SipTransportInfo (DOWNLOAD_SUCCESS_RESPONSE (request_id ft_private)) #
                      (case ft_call_private ft_private of
                         None \<Rightarrow> []
                       | Some call \<Rightarrow> [BackendMediaHangup call True]) @
                      sipe_file_transfer_lync_free ft_private)
            else Inr (Some ft_private, []))"
  using to_eq_iff [OF assms, of to] size_minus_one [OF assms]
  by (simp add: ft_lync_incoming_end_def process_notify_def send_ms_filetransfer_msg_def
      ft_lync_deallocate_def)

theorem C8_notify_of_last_byte_completes_witness:
  "process_notify example_ft \<lparr>xml_fileTransferProgress = Some (Some 2047)\<rparr> =
     Inr (None, [SipTransportInfo (DOWNLOAD_SUCCESS_RESPONSE 7), BackendMediaHangup ''call-1'' True]) \<and>
   process_notify example_ft \<lparr>xml_fileTransferProgress = Some (Some 2046)\<rparr> =
     Inr (Some example_ft, []) \<and>
   ft_lync_incoming_end 99 example_ft =
     (True, example_ft\<lparr>ft_deallocate := False\<rparr>,
      [SipTransportInfo (FILETRANSFER_PROGRESS 99 7 2047)])"
proof -
  have a: "0 < unat (file_size example_ft)" "unat (file_size example_ft) \<le> 2 ^ 31"
    by (simp_all add: example_ft_def)
  show ?thesis
    using C8_notify_of_last_byte_completes [OF a, of 99 2047]
          C8_notify_of_last_byte_completes [OF a, of 99 2046]
    by (simp add: example_ft_def sipe_file_transfer_lync_free_def)
qed

subsection \<open>Media relay credentials\<close>

text \<open>
  Claim C10: every response to the credentials request first drops the stored user name,
  password and relay list (cancelling the DNS queries still pending), so what the
  function returns and leaves behind does not depend on them; a response of 400 or more
  leaves no credentials and no relays.
\<close>

theorem C10_stale_credentials_dropped:
  "fst (process_get_av_edge_credentials_response sipe_xml_parse sipe_private msg) =
     fst (process_get_av_edge_credentials_response sipe_xml_parse
            (sipe_private\<lparr> media_relay_username := None, media_relay_password := None,
                            media_relays := [] \<rparr>) msg) \<and>
   fst (snd (process_get_av_edge_credentials_response sipe_xml_parse sipe_private msg)) =
     fst (snd (process_get_av_edge_credentials_response sipe_xml_parse
            (sipe_private\<lparr> media_relay_username := None, media_relay_password := None,
                            media_relays := [] \<rparr>) msg)) \<and>
   (400 \<le> msg_response msg \<longrightarrow>
      process_get_av_edge_credentials_response sipe_xml_parse sipe_private msg =
        (False,
         sipe_private\<lparr> media_relay_username := None, media_relay_password := None,
                         media_relays := [] \<rparr>,
         sipe_media_relay_list_free (media_relays sipe_private)))"
  by (simp add: process_get_av_edge_credentials_response_def Let_def)

theorem C10_stale_credentials_dropped_witness:
  "process_get_av_edge_credentials_response example_xml_parse example_settings_with_relay
     (example_response 403 ''Forbidden'' []) =
     (False, example_settings, [BackendDnsQueryCancel (Some ''relay.example.com'')])"
proof -
  have r: "400 \<le> msg_response (example_response 403 ''Forbidden'' [])"
    by (simp add: example_response_def)
  show ?thesis
    using C10_stale_credentials_dropped [of example_xml_parse example_settings_with_relay
        "example_response 403 ''Forbidden'' []"] r
    by (simp add: example_settings_with_relay_def example_settings_def
        sipe_media_relay_list_free_def example_relay_def)
qed

subsection \<open>Sending an ACK\<close>

lemma sipe_media_send_ack_found:
  assumes "sipmsg_find_header msg ''Call-ID'' = Some callid"
    and "media_calls sipe_private callid = Some call_private"
    and "session call_private = Some s" and "dialogs s = dialog # ds"
  shows "sipe_media_send_ack sip_transport_ack sipe_private msg tr =
           Inr (True,
                store_call sipe_private callid
                  (call_private\<lparr>session := Some (s\<lparr>dialogs :=
                     (sip_transport_ack (dialog\<lparr>cseq := trans_cseq tr - 1\<rparr>))
                       \<lparr>cseq := cseq dialog, outgoing_invite := None\<rparr> # ds\<rparr>)\<rparr>),
                [SipTransportAck (dialog\<lparr>cseq := trans_cseq tr - 1\<rparr>)])"
  using assms
  by (simp add: sipe_media_send_ack_def sipe_media_from_sipmsg_def sipe_media_get_sip_dialog_def
      call_store_dialog_def Let_def)

lemma transport_frame:
  assumes "\<forall>x. (sip_transport_ack x)\<lparr>cseq := cseq x\<rparr> = x"
  shows "(sip_transport_ack (dialog\<lparr>cseq := c\<rparr>))\<lparr>cseq := cseq dialog, outgoing_invite := None\<rparr>
         = dialog\<lparr>outgoing_invite := None\<rparr>"
proof -
  have "(sip_transport_ack (dialog\<lparr>cseq := c\<rparr>))\<lparr>cseq := c\<rparr> = dialog\<lparr>cseq := c\<rparr>"
    using assms [rule_format, of "dialog\<lparr>cseq := c\<rparr>"] by simp
  then have "((sip_transport_ack (dialog\<lparr>cseq := c\<rparr>))\<lparr>cseq := c\<rparr>)\<lparr>cseq := cseq dialog\<rparr>
      = (dialog\<lparr>cseq := c\<rparr>)\<lparr>cseq := cseq dialog\<rparr>"
    by simp
  then show ?thesis by simp
qed

text \<open>
  Claim C9: \<^verbatim>\<open>sipe_media_send_ack\<close> sends the ACK with the dialog's cseq set to the
  transaction's cseq minus one and puts the saved cseq back, whatever the transport did
  to it; when the transport writes no other field of the dialog, the state after the
  call differs from the state before only in the dialog's \<open>outgoing_invite\<close>, which is
  cleared.
\<close>

theorem C9_send_ack_changes_only_outgoing_invite:
  assumes "sipmsg_find_header msg ''Call-ID'' = Some callid"
    and "media_calls sipe_private callid = Some call_private"
    and "session call_private = Some s" and "dialogs s = dialog # ds"
  shows "sipe_media_send_ack sip_transport_ack sipe_private msg tr =
           Inr (True,
                sipe_private\<lparr>media_calls := (media_calls sipe_private)(callid \<mapsto>
                  call_private\<lparr>session := Some (s\<lparr>dialogs :=
                     (sip_transport_ack (dialog\<lparr>cseq := trans_cseq tr - 1\<rparr>))
                       \<lparr>cseq := cseq dialog, outgoing_invite := None\<rparr> # ds\<rparr>)\<rparr>)\<rparr>,
                [SipTransportAck (dialog\<lparr>cseq := trans_cseq tr - 1\<rparr>)]) \<and>
         ((\<forall>x. (sip_transport_ack x)\<lparr>cseq := cseq x\<rparr> = x) \<longrightarrow>
          sipe_media_send_ack sip_transport_ack sipe_private msg tr =
           Inr (True,
                sipe_private\<lparr>media_calls := (media_calls sipe_private)(callid \<mapsto>
                  call_private\<lparr>session := Some (s\<lparr>dialogs :=
                     dialog\<lparr>outgoing_invite := None\<rparr> # ds\<rparr>)\<rparr>)\<rparr>,
                [SipTransportAck (dialog\<lparr>cseq := trans_cseq tr - 1\<rparr>)]))"
  using sipe_media_send_ack_found [OF assms, of sip_transport_ack tr]
  by (simp add: store_call_def transport_frame)

theorem C9_send_ack_changes_only_outgoing_invite_witness:
  "sipe_media_send_ack example_transport_ack (example_core SIPE_ICE_RFC_5245)
     (example_response 200 ''OK'' []) \<lparr>trans_cseq = 1\<rparr> =
   Inr (True,
        (example_core SIPE_ICE_RFC_5245)\<lparr>media_calls :=
           [''call-1'' \<mapsto> (example_outgoing_call SIPE_ICE_RFC_5245)\<lparr>session :=
              Some (example_session\<lparr>dialogs := [example_dialog\<lparr>outgoing_invite := None\<rparr>]\<rparr>)\<rparr>]\<rparr>,
        [SipTransportAck (example_dialog\<lparr>cseq := 0\<rparr>)])"
proof -
  have f: "\<forall>x. (example_transport_ack x)\<lparr>cseq := cseq x\<rparr> = x"
    by (simp add: example_transport_ack_def)
  have a: "sipmsg_find_header (example_response 200 ''OK'' []) ''Call-ID'' = Some ''call-1''"
    by (simp add: sipmsg_find_header_def example_response_def)
  have b: "media_calls (example_core SIPE_ICE_RFC_5245) ''call-1'' =
      Some (example_outgoing_call SIPE_ICE_RFC_5245)"
    by (simp add: example_core_def)
  have c: "session (example_outgoing_call SIPE_ICE_RFC_5245) = Some example_session"
    by (simp add: example_outgoing_call_def)
  have d: "dialogs example_session = [example_dialog]"
    by (simp add: example_session_def)
  have e: "media_calls (example_core SIPE_ICE_RFC_5245) =
      [''call-1'' \<mapsto> example_outgoing_call SIPE_ICE_RFC_5245]"
    by (simp add: example_core_def)
  show ?thesis
    using C9_send_ack_changes_only_outgoing_invite [OF a b c d, of example_transport_ack
        "\<lparr>trans_cseq = 1\<rparr>", THEN conjunct2, THEN mp, OF f]
    by (simp add: e)
qed

subsection \<open>UDP candidates that share a port\<close>

lemma udp_with_snoc:
  "udp_with f (P @ [c]) =
     udp_with f P @
     (if bc_protocol c = SIPE_NETWORK_PROTOCOL_UDP \<and> bc_foundation c = f then [c] else [])"
  by (simp add: udp_with_def)

lemma udp_with_append: "udp_with f (P @ R) = udp_with f P @ udp_with f R"
  by (simp add: udp_with_def)

lemma remove1_unique:
  "filter Q xs = [x] \<Longrightarrow> remove1 x xs = filter (\<lambda>y. \<not> Q y) xs"
proof (induction xs)
  case Nil
  then show ?case by simp
next
  case (Cons a xs)
  show ?case
  proof (cases "Q a")
    case True
    with Cons.prems have a: "a = x" and e: "filter Q xs = []" by auto
    from e have "filter (\<lambda>y. \<not> Q y) xs = xs"
      by (simp add: filter_empty_conv)
    with True a show ?thesis by simp
  next
    case False
    with Cons.prems have f: "filter Q xs = [x]" by simp
    have "Q x" using f by (metis filter_eq_ConsD)
    with False have "a \<noteq> x" by auto
    with False Cons.IH [OF f] show ?thesis by simp
  qed
qed

lemma matching_later_Nil [simp]: "matching_later [] = []"
  by (simp add: matching_later_def)

lemma matching_later_snoc:
  "us \<noteq> [] \<Longrightarrow>
   matching_later (us @ [c]) =
     (if matching_later us = []
      then (if mistagged_tcp_pair c (hd us) then [c] else [])
      else matching_later us @ [c])"
  by (cases us) (auto simp: matching_later_def dropWhile_append)

lemma matching_later_append:
  "matching_later us \<noteq> [] \<Longrightarrow> matching_later (us @ vs) = matching_later us @ vs"
  by (cases us) (auto simp: matching_later_def dropWhile_append)

lemma mistagged_tcp_pair_refl [simp]: "mistagged_tcp_pair c c"
  by (simp add: mistagged_tcp_pair_def)

lemma matching_later_empty_mem:
  assumes "matching_later us = []" and "x \<in> set us" and "mistagged_tcp_pair x (hd us)"
  shows "x = hd us \<and> filter (\<lambda>y. y = x) us = [x]"
proof (cases us)
  case Nil
  with assms show ?thesis by simp
next
  case (Cons c2 later)
  with assms(1) have n: "\<forall>y\<in>set later. \<not> mistagged_tcp_pair y c2"
    by (simp add: matching_later_def)
  with assms(2,3) Cons have x: "x = c2" by auto
  from n have "c2 \<notin> set later" by auto
  then have "filter (\<lambda>y. y = c2) later = []" by (auto simp: filter_empty_conv)
  with x Cons show ?thesis by simp
qed

lemma remove_wrong_loop_correct:
  assumes "\<forall>f. tbl f = None \<longrightarrow> udp_with f P = []"
    and "\<forall>f c2. tbl f = Some (Valid c2) \<longrightarrow>
           udp_with f P \<noteq> [] \<and> hd (udp_with f P) = c2 \<and> matching_later (udp_with f P) = []"
    and "\<forall>f. tbl f = Some Dangling \<longrightarrow> length (matching_later (udp_with f P)) = 1"
    and "kept = filter (\<lambda>c. \<not> discarded P c) P"
  shows "remove_wrong_loop tbl kept R =
           (if reads_freed_candidate (P @ R) then Inl UseAfterFree
            else Inr (filter (\<lambda>c. \<not> discarded (P @ R) c) (P @ R)))"
  using assms
proof (induction R arbitrary: tbl kept P)
  case Nil
  have "length (matching_later (udp_with f P)) \<le> 1" for f
  proof (cases "tbl f")
    case None
    with Nil.prems(1) show ?thesis by simp
  next
    case (Some p)
    then show ?thesis
      using Nil.prems(2,3) by (cases p) auto
  qed
  then have "\<not> reads_freed_candidate P"
    by (auto simp: reads_freed_candidate_def not_less)
  with Nil.prems(4) show ?case by simp
next
  case (Cons c rest)
  let ?f = "bc_foundation c"
  let ?P' = "P @ [c]"
  have split: "P @ c # rest = ?P' @ rest" by simp
  show ?case
  proof (cases "bc_protocol c = SIPE_NETWORK_PROTOCOL_UDP")
    case False
    have u: "udp_with f ?P' = udp_with f P" for f
      using False by (simp add: udp_with_snoc)
    have d: "discarded ?P' x = discarded P x" for x
      unfolding discarded_def u ..
    have nd: "\<not> discarded P c" using False by (simp add: discarded_def)
    have k: "kept @ [c] = filter (\<lambda>x. \<not> discarded ?P' x) ?P'"
      using Cons.prems(4) nd by (simp add: d)
    have "remove_wrong_loop tbl (kept @ [c]) rest =
           (if reads_freed_candidate (?P' @ rest) then Inl UseAfterFree
            else Inr (filter (\<lambda>c. \<not> discarded (?P' @ rest) c) (?P' @ rest)))"
      using Cons.prems(1,2,3) k by (intro Cons.IH) (simp_all only: u)
    then show ?thesis
      unfolding split using False by simp
  next
    case udp: True
    have u_other: "udp_with g ?P' = udp_with g P" if "g \<noteq> ?f" for g
      using that by (auto simp: udp_with_snoc)
    have u_f: "udp_with ?f ?P' = udp_with ?f P @ [c]"
      using udp by (simp add: udp_with_snoc)
    show ?thesis
    proof (cases "tbl ?f")
      case None
      then have e: "udp_with ?f P = []" using Cons.prems(1) by simp
      have uf: "udp_with ?f ?P' = [c]" using u_f e by simp
      have d: "discarded ?P' x = discarded P x" if "x \<in> set P" for x
      proof (cases "bc_protocol x = SIPE_NETWORK_PROTOCOL_UDP \<and> bc_foundation x = ?f")
        case True
        with that have "x \<in> set (udp_with ?f P)" by (simp add: udp_with_def)
        with e show ?thesis by simp
      next
        case False
        then show ?thesis by (auto simp: discarded_def u_other split: list.splits)
      qed
      have nd: "\<not> discarded ?P' c"
        by (simp add: discarded_def uf matching_later_def)
      have k: "kept @ [c] = filter (\<lambda>x. \<not> discarded ?P' x) ?P'"
        using Cons.prems(4) nd d by (simp cong: filter_cong)
      have i1: "\<forall>f. (tbl(?f \<mapsto> Valid c)) f = None \<longrightarrow> udp_with f ?P' = []"
        using Cons.prems(1) by (auto simp: u_other)
      have i2: "\<forall>f c2. (tbl(?f \<mapsto> Valid c)) f = Some (Valid c2) \<longrightarrow>
           udp_with f ?P' \<noteq> [] \<and> hd (udp_with f ?P') = c2 \<and>
           matching_later (udp_with f ?P') = []"
        using Cons.prems(2) by (auto simp: u_other uf matching_later_def)
      have i3: "\<forall>f. (tbl(?f \<mapsto> Valid c)) f = Some Dangling \<longrightarrow>
           length (matching_later (udp_with f ?P')) = 1"
        using Cons.prems(3) by (auto simp: u_other)
      have "remove_wrong_loop (tbl(?f \<mapsto> Valid c)) (kept @ [c]) rest =
           (if reads_freed_candidate (?P' @ rest) then Inl UseAfterFree
            else Inr (filter (\<lambda>c. \<not> discarded (?P' @ rest) c) (?P' @ rest)))"
        using i1 i2 i3 k by (rule Cons.IH)
      then show ?thesis
        unfolding split using udp None by simp
    next
      case (Some p)
      show ?thesis
      proof (cases p)
        case Dangling
        with Some Cons.prems(3) have l: "length (matching_later (udp_with ?f P)) = 1" by simp
        then have ne: "matching_later (udp_with ?f P) \<noteq> []" "udp_with ?f P \<noteq> []" by auto
        have a: "matching_later (udp_with ?f P @ [c]) = matching_later (udp_with ?f P) @ [c]"
          using ne by (simp add: matching_later_snoc)
        have b: "udp_with ?f (P @ c # rest) = (udp_with ?f P @ [c]) @ udp_with ?f rest"
          using udp by (simp add: udp_with_def)
        have "matching_later (udp_with ?f (P @ c # rest)) =
            (matching_later (udp_with ?f P) @ [c]) @ udp_with ?f rest"
          unfolding b using a by (subst matching_later_append) simp_all
        then have "1 < length (matching_later (udp_with ?f (P @ c # rest)))"
          using l by simp
        then have "reads_freed_candidate (P @ c # rest)"
          unfolding reads_freed_candidate_def using udp by (intro bexI [of _ c]) simp_all
        then show ?thesis
          using udp Some Dangling by simp
      next
        case (Valid c2)
        with Some Cons.prems(2) have v: "udp_with ?f P \<noteq> []" "hd (udp_with ?f P) = c2"
          "matching_later (udp_with ?f P) = []" by auto
        have c2_udp: "c2 \<in> set (udp_with ?f P)" using v(1,2) by (metis hd_in_set)
        show ?thesis
        proof (cases "mistagged_tcp_pair c c2")
          case False
          have ml: "matching_later (udp_with ?f ?P') = []"
            unfolding u_f using v False by (simp add: matching_later_snoc)
          have d: "discarded ?P' x = discarded P x" for x
          proof (cases "bc_protocol x = SIPE_NETWORK_PROTOCOL_UDP \<and> bc_foundation x = ?f")
            case True
            then show ?thesis by (simp add: discarded_def ml v split: list.splits)
          next
            case False
            then show ?thesis by (auto simp: discarded_def u_other split: list.splits)
          qed
          have nd: "\<not> discarded ?P' c" using udp by (simp add: discarded_def ml)
          have k: "kept @ [c] = filter (\<lambda>x. \<not> discarded ?P' x) ?P'"
            using Cons.prems(4) nd by (simp add: d)
          have i1: "\<forall>f. tbl f = None \<longrightarrow> udp_with f ?P' = []"
            using Cons.prems(1) Some by (auto simp: udp_with_snoc)
          have i2: "\<forall>f c2. tbl f = Some (Valid c2) \<longrightarrow>
               udp_with f ?P' \<noteq> [] \<and> hd (udp_with f ?P') = c2 \<and>
               matching_later (udp_with f ?P') = []"
          proof (intro allI impI)
            fix g c2' assume g: "tbl g = Some (Valid c2')"
            show "udp_with g ?P' \<noteq> [] \<and> hd (udp_with g ?P') = c2' \<and>
               matching_later (udp_with g ?P') = []"
            proof (cases "g = ?f")
              case True
              with g Some Valid have "c2' = c2" by simp
              with True ml v u_f show ?thesis by simp
            next
              case False
              with g Cons.prems(2) show ?thesis by (simp add: u_other)
            qed
          qed
          have i3: "\<forall>f. tbl f = Some Dangling \<longrightarrow>
               length (matching_later (udp_with f ?P')) = 1"
          proof (intro allI impI)
            fix g assume g: "tbl g = Some Dangling"
            with Some Valid have "g \<noteq> ?f" by auto
            with g Cons.prems(3) show "length (matching_later (udp_with g ?P')) = 1"
              by (simp add: u_other)
          qed
          have "remove_wrong_loop tbl (kept @ [c]) rest =
               (if reads_freed_candidate (?P' @ rest) then Inl UseAfterFree
                else Inr (filter (\<lambda>c. \<not> discarded (?P' @ rest) c) (?P' @ rest)))"
            using i1 i2 i3 k by (rule Cons.IH)
          then show ?thesis
            unfolding split using udp Some Valid False by simp
        next
          case True
          have ml: "matching_later (udp_with ?f ?P') = [c]"
            unfolding u_f using v True by (simp add: matching_later_snoc)
          have hd': "hd (udp_with ?f ?P') = c2"
            unfolding u_f using v by simp
          have df: "discarded ?P' x = (x = c \<or> x = c2)"
            if "bc_protocol x = SIPE_NETWORK_PROTOCOL_UDP" "bc_foundation x = ?f" for x
            using that by (simp add: discarded_def ml hd')
          have c2_props: "bc_protocol c2 = SIPE_NETWORK_PROTOCOL_UDP" "bc_foundation c2 = ?f"
            "c2 \<in> set P"
            using c2_udp by (simp_all add: udp_with_def)
          have old: "\<not> discarded P x" if "bc_foundation x = ?f" for x
            using that by (simp add: discarded_def v)
          have d: "discarded ?P' x = (discarded P x \<or> x = c \<or> x = c2)" for x
          proof (cases "bc_protocol x = SIPE_NETWORK_PROTOCOL_UDP \<and> bc_foundation x = ?f")
            case True
            then show ?thesis using df old by simp
          next
            case False
            then have "x \<noteq> c" "x \<noteq> c2" using udp c2_props by auto
            with False show ?thesis by (auto simp: discarded_def u_other split: list.splits)
          qed
          have one: "filter (\<lambda>x. x = c \<or> x = c2) kept = [c2]"
          proof -
            have "filter (\<lambda>x. x = c \<or> x = c2) kept =
                filter (\<lambda>x. x = c \<or> x = c2) (udp_with ?f P)"
              unfolding Cons.prems(4) udp_with_def
              using udp c2_props old by (auto intro!: filter_cong)
            also have "\<dots> = filter (\<lambda>x. x = c2) (udp_with ?f P)"
            proof (rule filter_cong [OF refl])
              fix x assume x: "x \<in> set (udp_with ?f P)"
              show "(x = c \<or> x = c2) = (x = c2)"
                using matching_later_empty_mem [OF v(3) x] True v(2) by auto
            qed
            also have "\<dots> = [c2]"
              using matching_later_empty_mem [OF v(3) c2_udp] v(2) by simp
            finally show ?thesis .
          qed
          have k: "remove1 c2 kept = filter (\<lambda>x. \<not> discarded ?P' x) ?P'"
            unfolding remove1_unique [OF one]
            by (simp add: Cons.prems(4) d)
          have i1: "\<forall>f. (tbl(?f \<mapsto> Dangling)) f = None \<longrightarrow> udp_with f ?P' = []"
            using Cons.prems(1) by (auto simp: u_other)
          have i2: "\<forall>f c2. (tbl(?f \<mapsto> Dangling)) f = Some (Valid c2) \<longrightarrow>
               udp_with f ?P' \<noteq> [] \<and> hd (udp_with f ?P') = c2 \<and>
               matching_later (udp_with f ?P') = []"
            using Cons.prems(2) by (auto simp: u_other)
          have i3: "\<forall>f. (tbl(?f \<mapsto> Dangling)) f = Some Dangling \<longrightarrow>
               length (matching_later (udp_with f ?P')) = 1"
            using Cons.prems(3) ml by (auto simp: u_other)
          have "remove_wrong_loop (tbl(?f \<mapsto> Dangling)) (remove1 c2 kept) rest =
               (if reads_freed_candidate (?P' @ rest) then Inl UseAfterFree
                else Inr (filter (\<lambda>c. \<not> discarded (?P' @ rest) c) (?P' @ rest)))"
            using i1 i2 i3 k by (rule Cons.IH)
          then show ?thesis
            unfolding split using udp Some Valid True by simp
        qed
      qed
    qed
  qed
qed

text \<open>
  Claim C5, as stated: two UDP candidates of one foundation are discarded when they are
  on the same IP and have equal port (or equal base port, both being non-host), and all
  other candidates are kept. The code never reads the IP of a candidate here: two UDP
  candidates of one foundation with equal port on two different IPs are both discarded.
  It reads the type of the later candidate only: a host candidate and a later
  server-reflexive one with the same base port are both discarded. And it tests a
  candidate against the first one of its foundation only: two later candidates that share
  IP and port, but not with the first, are kept.
\<close>

theorem C5_pair_on_two_ips_discarded_counterexample:
  "remove_wrong_farstream_0_1_tcp_candidates example_udp_pair_two_ips = Inr [] \<and>
   map bc_ip example_udp_pair_two_ips = [Some ''10.0.0.1'', Some ''192.168.1.7''] \<and>
   remove_wrong_farstream_0_1_tcp_candidates example_srflx_same_base_port = Inr [] \<and>
   map bc_type example_srflx_same_base_port =
     [SIPE_CANDIDATE_TYPE_HOST, SIPE_CANDIDATE_TYPE_SRFLX] \<and>
   remove_wrong_farstream_0_1_tcp_candidates example_later_pair_same_port =
     Inr example_later_pair_same_port \<and>
   map bc_port example_later_pair_same_port = [5000, 5002, 5002] \<and>
   map bc_ip example_later_pair_same_port =
     [Some ''10.0.0.1'', Some ''10.0.0.1'', Some ''10.0.0.1'']"
  by (simp add: remove_wrong_farstream_0_1_tcp_candidates_def example_udp_pair_two_ips_def
      example_srflx_same_base_port_def example_later_pair_same_port_def
      example_host_candidate_def mistagged_tcp_pair_def)

text \<open>
  Claim C5, amended: every UDP candidate is tested against the first UDP candidate of its
  foundation, whatever their IPs. The first later candidate that has the port of the first
  one, or that is not a host candidate and has its base port, is discarded together with
  the first one; all other candidates are kept, in order. That is the result for every
  list in which no UDP candidate of a foundation follows a discarded pair; on the other
  lists the code reads the freed first candidate, which the model reports as an error.
\<close>

theorem C5_first_and_matching_udp_candidate_discarded:
  "remove_wrong_farstream_0_1_tcp_candidates candidates =
     (if reads_freed_candidate candidates then Inl UseAfterFree
      else Inr (filter (\<lambda>c. \<not> discarded candidates c) candidates))"
  using remove_wrong_loop_correct [of Map.empty "[]" "[]" candidates]
  by (simp add: remove_wrong_farstream_0_1_tcp_candidates_def udp_with_def)

theorem C5_first_and_matching_udp_candidate_discarded_witness:
  "remove_wrong_farstream_0_1_tcp_candidates example_first_and_third =
     Inr [example_host_candidate SIPE_COMPONENT_RTCP 5002, example_tcp_candidate] \<and>
   remove_wrong_farstream_0_1_tcp_candidates example_candidate_after_pair = Inl UseAfterFree"
proof -
  have r: "\<not> reads_freed_candidate example_first_and_third"
    "reads_freed_candidate example_candidate_after_pair"
    by (simp_all add: reads_freed_candidate_def matching_later_def udp_with_def
        example_first_and_third_def example_candidate_after_pair_def example_tcp_candidate_def
        example_host_candidate_def mistagged_tcp_pair_def)
  have d: "filter (\<lambda>c. \<not> discarded example_first_and_third c) example_first_and_third =
      [example_host_candidate SIPE_COMPONENT_RTCP 5002, example_tcp_candidate]"
    by (simp add: discarded_def matching_later_def udp_with_def example_first_and_third_def
        example_tcp_candidate_def example_host_candidate_def mistagged_tcp_pair_def)
  show ?thesis
    using C5_first_and_matching_udp_candidate_discarded [of example_first_and_third]
      C5_first_and_matching_udp_candidate_discarded [of example_candidate_after_pair]
    by (simp add: r d)
qed

subsection \<open>Ports of TCP-active and relay candidates\<close>















subsection \<open>Codecs of the sections of a serialised message\<close>

lemma media_stream_to_sdpmedia_failed_media:
  "media_stream_to_sdpmedia sipe_private (call\<lparr>failed_media := x\<rparr>) stream =
   media_stream_to_sdpmedia sipe_private call stream"
  by (simp add: media_stream_to_sdpmedia_def Let_def case_prod_beta
      split: option.splits sum.splits)

lemma streams_to_sdpmedia_failed_media:
  "streams_to_sdpmedia sipe_private (call\<lparr>failed_media := x\<rparr>) ss =
   streams_to_sdpmedia sipe_private call ss"
  by (induction ss) (simp_all add: media_stream_to_sdpmedia_failed_media split: sum.splits)

lemma streams_to_sdpmedia_codecs:
  "streams_to_sdpmedia sipe_private call_private ss = Inr medias \<Longrightarrow>
   list_all2 codecs_unique_first_kept_sorted
     (filter (\<lambda>s. media_type_of_name (stream_id s) \<noteq> None) ss) medias"
proof (induction ss arbitrary: medias)
  case Nil
  then show ?case by simp
next
  case (Cons s ss)
  from Cons.prems obtain media rest where
    m: "media_stream_to_sdpmedia sipe_private call_private s = Inr media" and
    r: "streams_to_sdpmedia sipe_private call_private ss = Inr rest" and
    e: "medias = (case media of None \<Rightarrow> [] | Some m \<Rightarrow> [m]) @ rest"
    by (auto split: sum.splits)
  show ?case
  proof (cases media)
    case None
    with m have "media_type_of_name (stream_id s) = None"
      by (simp add: media_stream_to_sdpmedia_None)
    with None e Cons.IH [OF r] show ?thesis by simp
  next
    case (Some x)
    with m have x: "media_stream_to_sdpmedia sipe_private call_private s = Inr (Some x)"
      by simp
    have "codecs_unique_first_kept_sorted s x"
      unfolding codecs_unique_first_kept_sorted_def
      using stream_section_codecs [OF x] media_stream_to_sdpmedia_Some(1) [OF x] by blast
    then show ?thesis
      using Some e Cons.IH [OF r] media_stream_to_sdpmedia_Some(3) [OF x] by simp
  qed
qed

lemma example_apply_remote_message_96_twice:
  "apply_remote_message example_settings example_media_backend example_call
     example_remote_msg_96_twice =
     (True, example_call\<lparr>failed_media := [example_video_section_96_twice\<lparr>media_port := 0\<rparr>]\<rparr>,
      example_remote_msg_96_twice\<lparr>sdp_media := [example_remote_section ''audio'' 6000]\<rparr>, [])"
  by (simp add: apply_remote_message_def example_remote_msg_96_twice_def
      example_video_section_96_twice_def example_remote_msg_def example_remote_section_def
      example_call_def empty_call_def example_audio_stream_def update_call_from_remote_sdp_def
      sipe_utils_nameval_find_def Let_def)

lemma failed_call_to_sdpmsg:
  "sipe_media_to_sdpmsg example_settings (example_call\<lparr>failed_media := fs\<rparr>) =
     Inr (example_msg\<lparr>sdp_media := example_audio_media # fs\<rparr>, example_call)"
proof -
  have s: "streams example_call = [example_audio_stream]"
    by (simp add: example_call_def empty_call_def)
  have f: "example_call\<lparr>failed_media := []\<rparr> = example_call"
    "ice_version example_call = SIPE_ICE_RFC_5245"
    by (simp_all add: example_call_def empty_call_def)
  have i: "media_ip example_audio_media = Some ''10.0.0.1''"
    by (simp add: example_audio_media_def)
  show ?thesis
    by (simp add: sipe_media_to_sdpmsg_def s f i
        streams_to_sdpmedia_failed_media media_stream_to_sdpmedia_failed_media
        example_media_stream_to_sdpmedia example_msg_def)
qed

text \<open>
  Claim C4, as stated: no media section of an outbound SDP has two codecs of the same
  payload id. The remote message has a video section with two codecs of id 96 and the call
  has no video stream: the section fails, is kept on the call with port 0, and the next
  message that \<^verbatim>\<open>sipe_media_to_sdpmsg\<close> builds carries it with both codecs.
\<close>

theorem C4_failed_section_keeps_equal_ids_counterexample:
  "apply_remote_message example_settings example_media_backend example_call
     example_remote_msg_96_twice =
     (True, example_call\<lparr>failed_media := [example_video_section_96_twice\<lparr>media_port := 0\<rparr>]\<rparr>,
      example_remote_msg_96_twice\<lparr>sdp_media := [example_remote_section ''audio'' 6000]\<rparr>, []) \<and>
   sipe_media_to_sdpmsg example_settings
     (example_call\<lparr>failed_media := [example_video_section_96_twice\<lparr>media_port := 0\<rparr>]\<rparr>) =
     Inr (example_msg\<lparr>sdp_media :=
            [example_audio_media, example_video_section_96_twice\<lparr>media_port := 0\<rparr>]\<rparr>,
          example_call) \<and>
   map codec_id (media_codecs (example_video_section_96_twice\<lparr>media_port := 0\<rparr>)) = [96, 96]"
  by (simp add: example_apply_remote_message_96_twice failed_call_to_sdpmsg)
     (simp add: example_video_section_96_twice_def)

text \<open>
  Claim C4, amended: in every message that \<^verbatim>\<open>sipe_media_to_sdpmsg\<close> builds, the sections
  serialised from the streams of the call come first, one for each stream whose id names a
  known media, and in each of them no two codecs have the same payload id, of the backend's
  codecs that share an id the first is kept, with its name, clock rate and parameters, and
  the others are dropped, and the kept codecs are in increasing order of payload id (the
  order of the 32-bit difference that \<^verbatim>\<open>sdpcodec_compare\<close> computes, which is the order
  of the ids when none is negative). The remaining sections of the message are the failed
  media sections of the call, as they are.
\<close>

theorem C4_stream_sections_codecs_unique_sorted:
  assumes "sipe_media_to_sdpmsg sipe_private call_private = Inr (msg, call')"
  shows "list_all2 codecs_unique_first_kept_sorted
           (filter (\<lambda>s. media_type_of_name (stream_id s) \<noteq> None) (streams call_private))
           (take (length (sdp_media msg) - length (failed_media call_private)) (sdp_media msg)) \<and>
         drop (length (sdp_media msg) - length (failed_media call_private)) (sdp_media msg) =
           failed_media call_private"
proof -
  from assms obtain medias where
    m: "streams_to_sdpmedia sipe_private call_private (streams call_private) = Inr medias" and
    s: "sdp_media msg = medias @ failed_media call_private"
    by (auto simp: sipe_media_to_sdpmsg_def split: sum.splits)
  show ?thesis
    unfolding s using streams_to_sdpmedia_codecs [OF m] by simp
qed

theorem C4_stream_sections_codecs_unique_sorted_witness:
  "sipe_media_to_sdpmsg example_settings example_call = Inr (example_msg, example_call) \<and>
   codecs_unique_first_kept_sorted example_audio_stream example_audio_media \<and>
   map bcodec_id (local_codecs (backend_private example_audio_stream)) = [8, 0, 8, 101] \<and>
   map codec_id (media_codecs example_audio_media) = [0, 8, 101]"
proof -
  have t: "media_type_of_name (stream_id example_audio_stream) \<noteq> None"
    by (simp add: media_type_of_name_def example_audio_stream_def)
  have s: "streams example_call = [example_audio_stream]" "failed_media example_call = []"
    by (simp_all add: example_call_def empty_call_def)
  have i: "map codec_id (media_codecs example_audio_media) = [0, 8, 101]"
    "map bcodec_id (local_codecs (backend_private example_audio_stream)) = [8, 0, 8, 101]"
    "sdp_media example_msg = [example_audio_media]"
    by (simp_all add: example_audio_media_def example_audio_stream_def example_codecs_def
        example_msg_def)
  show ?thesis
    using C4_stream_sections_codecs_unique_sorted [OF example_sipe_media_to_sdpmsg] t
    by (simp add: example_sipe_media_to_sdpmsg s i)
qed

subsection \<open>Failed media sections\<close>




lemma ids_store_stream:
  "stream_id new = sid \<Longrightarrow> map stream_id (store_stream ss sid new) = map stream_id ss"
  by (induction ss) auto



























subsection \<open>The retry of a refused call\<close>





























end
